theory Spec2Isabelle
  imports Main "HOL-Library.Monad_Syntax"
begin

section \<open>Text as the action sees it\<close>

text \<open>
  A JavaScript string is modelled as a \<^typ>\<open>string\<close>, one \<^typ>\<open>char\<close> for each code unit,
  for the strings whose code units lie below 256 (U+0000 to U+00FF); the keyword tables,
  the prompts and everything the payment payload holds (hex strings and decimal digits)
  are ASCII. On this range \<open>toLowerCase\<close> moves A to Z and the capital letters
  U+00C0 to U+00DE (the multiplication sign U+00D7 apart) up by 32.
\<close>

definition lowerChar :: "char \<Rightarrow> char" where
  "lowerChar c =
     (let n = (of_char c :: nat)
      in if (65 \<le> n \<and> n \<le> 90) \<or> (192 \<le> n \<and> n \<le> 222 \<and> n \<noteq> 215)
         then char_of (n + 32) else c)"

definition toLowerCase :: "string \<Rightarrow> string" where
  "toLowerCase s = map lowerChar s"

fun startsWith :: "string \<Rightarrow> string \<Rightarrow> bool" where
  "startsWith s [] = True"
| "startsWith [] (k # ks) = False"
| "startsWith (c # cs) (k # ks) = (c = k \<and> startsWith cs ks)"

text \<open>\<open>s.includes(k)\<close>: \<open>k\<close> occurs in \<open>s\<close> as a run of adjacent characters.\<close>

fun str_includes :: "string \<Rightarrow> string \<Rightarrow> bool" where
  "str_includes [] k = (k = [])"
| "str_includes (c # cs) k = (startsWith (c # cs) k \<or> str_includes cs k)"

text \<open>\<open>keywords.some((keyword) => messageText.includes(keyword))\<close>\<close>

definition someIncluded :: "string list \<Rightarrow> string \<Rightarrow> bool" where
  "someIncluded keywords messageText = list_ex (\<lambda>keyword. str_includes messageText keyword) keywords"

section \<open>Messages and the runtime\<close>

text \<open>
  What is thrown and later read by
  \<open>error instanceof Error ? error.message : "Unknown error occurred"\<close>.
\<close>

datatype thrown = Error string | NonError

record content =
  c_text :: "string option"
  c_actions :: "string list option"
  c_source :: "string option"

record memory =
  m_content :: content

text \<open>
  The part of \<open>IAgentRuntime\<close> the action uses: \<open>getMemories\<close> is the outcome of
  \<open>runtime.getMemories({roomId, count: 10, tableName: "messages"})\<close>, a throw or the
  memories found; \<open>getSetting\<close> gives \<open>None\<close> for an undefined setting.
\<close>

record runtime =
  getMemories :: "thrown + memory list"
  getSetting :: "string \<Rightarrow> string option"

definition messageTextOf :: "memory \<Rightarrow> string" where
  "messageTextOf message =
     toLowerCase (case c_text (m_content message) of None \<Rightarrow> [] | Some t \<Rightarrow> t)"

definition weatherKeywords :: "string list" where
  "weatherKeywords =
     [''weather'', ''temperature'', ''forecast'', ''climate'', ''weather report'',
      ''weather forecast'']"

definition approvalKeywords :: "string list" where
  "approvalKeywords =
     [''yes'', ''approve'', ''ok'', ''okay'', ''proceed'', ''go ahead'', ''sure'', ''fine'']"

definition rejectionKeywords :: "string list" where
  "rejectionKeywords =
     [''no'', ''deny'', ''reject'', ''cancel'', ''stop'', ''abort'', ''decline'', ''refuse'']"

definition isWeatherRequest :: "memory \<Rightarrow> bool" where
  "isWeatherRequest message = someIncluded weatherKeywords (messageTextOf message)"

definition isApproval :: "memory \<Rightarrow> bool" where
  "isApproval message = someIncluded approvalKeywords (messageTextOf message)"

definition isRejection :: "memory \<Rightarrow> bool" where
  "isRejection message = someIncluded rejectionKeywords (messageTextOf message)"

text \<open>The callback of \<open>recentMemories.some\<close> in \<open>validate\<close>.\<close>

definition paymentPromptIn :: "memory \<Rightarrow> bool" where
  "paymentPromptIn mem =
     (let memText = messageTextOf mem;
          hasWeatherAction =
            (case c_actions (m_content mem) of None \<Rightarrow> False
             | Some acts \<Rightarrow> ''WEATHER_REPORT'' \<in> set acts)
      in if hasWeatherAction \<or> str_includes memText ''0.001'' \<or> str_includes memText ''usdc''
            \<or> str_includes memText ''payment''
         then True else False)"

text \<open>
  \<open>weatherReportAction.validate\<close>. The approval branch is tried first and returns what the
  lookback finds, \<open>False\<close> when the fetch of the memories throws; the rejection branch
  returns \<open>True\<close> from its \<open>try\<close> and from its \<open>catch\<close> alike.
\<close>

definition validate :: "runtime \<Rightarrow> memory \<Rightarrow> bool" where
  "validate rt message =
     (if isApproval message then
        (case getMemories rt of
           Inr recentMemories \<Rightarrow> list_ex paymentPromptIn recentMemories
         | Inl e \<Rightarrow> False)
      else if isRejection message then
        (case getMemories rt of
           Inr recentMemories \<Rightarrow> True
         | Inl e \<Rightarrow> True)
      else isWeatherRequest message \<or> isApproval message \<or> isRejection message)"

section \<open>JSON values\<close>

text \<open>
  The values \<open>response.json()\<close> yields and \<open>JSON.stringify\<close> takes. A number is held
  as the text JavaScript writes for it (\<open>1\<close>, \<open>0.5\<close>, \<open>1e+21\<close>; \<open>0\<close> for both zeros): the
  code computes with no number of a body, it only tests one for truth and writes it. An
  object is the list of its own properties in insertion order, each key once.
\<close>

datatype json = JNull | JBool bool | JNum string | JStr string | JArr "json list"
  | JObj "(string \<times> json) list"

definition digitChar :: "nat \<Rightarrow> char" where
  "digitChar d = char_of (48 + d)"

text \<open>
  \<open>toString()\<close> of a bigint, and of the status of a response (an integer below 1000):
  decimal digits.
\<close>

function decimalNat :: "nat \<Rightarrow> string" where
  "decimalNat n =
     (if n < 10 then [digitChar n] else decimalNat (n div 10) @ [digitChar (n mod 10)])"
  by pat_completeness auto
termination
  by (relation "measure (\<lambda>n. n)") auto

declare decimalNat.simps [simp del]

definition decimal :: "int \<Rightarrow> string" where
  "decimal i = (if i < 0 then CHR ''-'' # decimalNat (nat (- i)) else decimalNat (nat i))"

definition hexDigit :: "nat \<Rightarrow> char" where
  "hexDigit d = (if d < 10 then char_of (48 + d) else char_of (87 + d))"

text \<open>
  How \<open>JSON.stringify\<close> writes one code unit of a string: the quotation mark and the
  backslash are escaped, the control characters below U+0020 get their short escape or
  \<open>\u00XX\<close> in lower-case hex, everything else is written as it is.
\<close>

definition escapeChar :: "char \<Rightarrow> string" where
  "escapeChar c =
     (let n = (of_char c :: nat) in
      if n = 34 then [CHR 0x5C, CHR 0x22]
      else if n = 92 then [CHR 0x5C, CHR 0x5C]
      else if n = 8 then [CHR 0x5C, CHR ''b'']
      else if n = 9 then [CHR 0x5C, CHR ''t'']
      else if n = 10 then [CHR 0x5C, CHR ''n'']
      else if n = 12 then [CHR 0x5C, CHR ''f'']
      else if n = 13 then [CHR 0x5C, CHR ''r'']
      else if n < 32
        then [CHR 0x5C, CHR ''u'', CHR ''0'', CHR ''0'', hexDigit (n div 16), hexDigit (n mod 16)]
      else [c])"

definition quote :: "string \<Rightarrow> string" where
  "quote s = CHR 0x22 # concat (map escapeChar s) @ [CHR 0x22]"

fun joinWith :: "string \<Rightarrow> string list \<Rightarrow> string" where
  "joinWith sep [] = []"
| "joinWith sep [x] = x"
| "joinWith sep (x # y # ys) = x @ sep @ joinWith sep (y # ys)"

fun JSON_stringify :: "json \<Rightarrow> string" where
  "JSON_stringify JNull = ''null''"
| "JSON_stringify (JBool b) = (if b then ''true'' else ''false'')"
| "JSON_stringify (JNum t) =
     (if t = ''NaN'' \<or> t = ''Infinity'' \<or> t = ''-Infinity'' then ''null'' else t)"
| "JSON_stringify (JStr s) = quote s"
| "JSON_stringify (JArr xs) = ''['' @ joinWith '','' (map JSON_stringify xs) @ '']''"
| "JSON_stringify (JObj kvs) =
     ''{'' @ joinWith '','' (map (\<lambda>kv. quote (fst kv) @ '':'' @ JSON_stringify (snd kv)) kvs)
       @ ''}''"

text \<open>
  The three JavaScript operations the code applies to a parsed body: reading a property
  (\<open>None\<close> is \<open>undefined\<close>; the read of a property of \<open>null\<close> throws and is handled where
  it happens), truthiness, and the conversion to a string inside a template literal.
\<close>

fun getProp :: "json \<Rightarrow> string \<Rightarrow> json option" where
  "getProp (JObj kvs) k = map_of kvs k"
| "getProp v k = None"

fun truthy :: "json \<Rightarrow> bool" where
  "truthy JNull = False"
| "truthy (JBool b) = b"
| "truthy (JNum t) = (t \<noteq> ''0'' \<and> t \<noteq> ''NaN'')"
| "truthy (JStr s) = (s \<noteq> [])"
| "truthy (JArr xs) = True"
| "truthy (JObj kvs) = True"

text \<open>\<open>a || b\<close> where \<open>a\<close> may be undefined.\<close>

definition orElse :: "json option \<Rightarrow> json \<Rightarrow> json" where
  "orElse a b = (case a of None \<Rightarrow> b | Some v \<Rightarrow> if truthy v then v else b)"

fun js_toString :: "json \<Rightarrow> string" where
  "js_toString JNull = ''null''"
| "js_toString (JBool b) = (if b then ''true'' else ''false'')"
| "js_toString (JNum t) = t"
| "js_toString (JStr s) = s"
| "js_toString (JArr xs) =
     joinWith '','' (map (\<lambda>x. if x = JNull then [] else js_toString x) xs)"
| "js_toString (JObj kvs) = ''[object Object]''"

section \<open>Bytes and base64\<close>

text \<open>
  \<open>Buffer.from(paymentJson)\<close> encodes the string in UTF-8: a code unit below 128 is one
  byte, one from 128 to 255 is two.
\<close>

definition utf8Char :: "char \<Rightarrow> string" where
  "utf8Char c =
     (let n = (of_char c :: nat)
      in if n < 128 then [c] else [char_of (192 + n div 64), char_of (128 + n mod 64)])"

definition utf8 :: "string \<Rightarrow> string" where
  "utf8 s = concat (map utf8Char s)"

definition base64Char :: "nat \<Rightarrow> char" where
  "base64Char i =
     (if i < 26 then char_of (65 + i)
      else if i < 52 then char_of (71 + i)
      else if i < 62 then char_of (i - 4)
      else if i = 62 then CHR ''+'' else CHR ''/'')"

text \<open>\<open>buffer.toString("base64")\<close>: three bytes give four characters, padded with \<open>=\<close>.\<close>

fun base64 :: "string \<Rightarrow> string" where
  "base64 [] = []"
| "base64 [a] =
     (let x = (of_char a :: nat)
      in [base64Char (x div 4), base64Char ((x mod 4) * 16), CHR ''='', CHR ''=''])"
| "base64 [a, b] =
     (let x = (of_char a :: nat); y = (of_char b :: nat)
      in [base64Char (x div 4), base64Char ((x mod 4) * 16 + y div 16),
          base64Char ((y mod 16) * 4), CHR ''=''])"
| "base64 (a # b # c # rest) =
     (let x = (of_char a :: nat); y = (of_char b :: nat); z = (of_char c :: nat)
      in [base64Char (x div 4), base64Char ((x mod 4) * 16 + y div 16),
          base64Char ((y mod 16) * 4 + z div 64), base64Char (z mod 64)] @ base64 rest)"

section \<open>The payment pipeline\<close>

record eip712Domain =
  d_name :: string
  d_version :: string
  d_chainId :: int
  d_verifyingContract :: string

definition USDC_ADDRESS :: string where
  "USDC_ADDRESS = ''0x036CbD53842c5426634e7929541eC2318f3dCF7e''"

definition PAYEE_ADDRESS :: string where
  "PAYEE_ADDRESS = ''0x903918bB1903714E0518Ea2122aCeBfa27f11b6F''"

text \<open>\<open>baseSepolia.id\<close> is 84532.\<close>

definition EIP3009_DOMAIN :: eip712Domain where
  "EIP3009_DOMAIN =
     \<lparr>d_name = ''USDC'', d_version = ''2'', d_chainId = 84532,
      d_verifyingContract = USDC_ADDRESS\<rparr>"

definition TRANSFER_WITH_AUTHORIZATION_TYPEHASH :: "(string \<times> string) list" where
  "TRANSFER_WITH_AUTHORIZATION_TYPEHASH =
     [(''from'', ''address''), (''to'', ''address''), (''value'', ''uint256''),
      (''validAfter'', ''uint256''), (''validBefore'', ''uint256''), (''nonce'', ''bytes32'')]"

text \<open>The \<open>message\<close> that is signed: the fields of the transfer authorization.\<close>

record authorization =
  a_from :: string
  a_to :: string
  a_value :: int
  a_validAfter :: int
  a_validBefore :: int
  a_nonce :: string

record account =
  address :: string
  privateKeyOf :: string

record request =
  r_url :: string
  r_method :: string
  r_headers :: "(string \<times> string) list"

text \<open>A response of \<open>fetch\<close>: \<open>rs_json\<close> is the outcome of \<open>response.json()\<close>.\<close>

record response =
  rs_status :: int
  rs_statusText :: string
  rs_json :: "thrown + json"

text \<open>
  Everything the pipeline asks of the outside: viem's key derivation, signing and
  verification, the random bytes of the nonce, the successive readings of \<open>Date.now()\<close>
  (milliseconds; reading 0 is the one of \<open>validAfter\<close>, reading 1 the one of
  \<open>validBefore\<close>), the network, the message of the \<open>TypeError\<close> the engine raises when a
  property of \<open>null\<close> is read, and the text the handler composes from the weather data
  (lines 897 to 929 of the source, left open).
\<close>

record world =
  privateKeyToAccount :: "string \<Rightarrow> thrown + string"
  signTypedData ::
    "account \<Rightarrow> eip712Domain \<Rightarrow> (string \<times> string) list \<Rightarrow> string \<Rightarrow> authorization
      \<Rightarrow> thrown + string"
  verifyTypedData ::
    "string \<Rightarrow> eip712Domain \<Rightarrow> (string \<times> string) list \<Rightarrow> string \<Rightarrow> authorization
      \<Rightarrow> string \<Rightarrow> thrown + bool"
  randomValues :: "nat \<Rightarrow> char"
  dateNow :: "nat \<Rightarrow> int"
  fetch :: "request \<Rightarrow> thrown + response"
  nullPropertyMessage :: string
  weatherReportText :: "json option \<Rightarrow> string"

record paymentResult =
  success :: bool
  data :: "json option"
  error :: "json option"
  status :: "int option"

text \<open>\<open>error instanceof Error ? error.message : "Unknown error occurred"\<close>\<close>

definition thrownMessage :: "thrown \<Rightarrow> string" where
  "thrownMessage e = (case e of Error m \<Rightarrow> m | NonError \<Rightarrow> ''Unknown error occurred'')"

text \<open>The result both functions return from their \<open>catch\<close>.\<close>

definition caught :: "thrown \<Rightarrow> paymentResult" where
  "caught e =
     \<lparr>success = False, data = None, error = Some (JStr (thrownMessage e)), status = None\<rparr>"

text \<open>viem's \<open>toHex\<close> of a byte array, and \<open>createNonce\<close>: 32 random bytes in hex.\<close>

definition toHex :: "string \<Rightarrow> string" where
  "toHex bytes =
     ''0x'' @ concat (map (\<lambda>b. [hexDigit (of_char b div 16), hexDigit (of_char b mod 16)]) bytes)"

definition createNonce :: "world \<Rightarrow> string" where
  "createNonce w = toHex (map (randomValues w) [0..<32])"

text \<open>
  \<open>fetchWeatherWithoutPayment\<close>, with the requests it issues. The status is copied into
  the result and not looked at.
\<close>

definition plainRequest :: "string \<Rightarrow> request" where
  "plainRequest apiUrl =
     \<lparr>r_url = apiUrl @ ''/weather'', r_method = ''GET'',
      r_headers = [(''Content-Type'', ''application/json'')]\<rparr>"

definition fetchWeatherWithoutPayment :: "world \<Rightarrow> string \<Rightarrow> paymentResult \<times> request list" where
  "fetchWeatherWithoutPayment w apiUrl =
     (let req = plainRequest apiUrl
      in case fetch w req of
           Inl e \<Rightarrow> (caught e, [req])
         | Inr resp \<Rightarrow>
             (case rs_json resp of
                Inl e \<Rightarrow> (caught e, [req])
              | Inr body \<Rightarrow>
                  (\<lparr>success = True, data = Some body, error = None,
                    status = Some (rs_status resp)\<rparr>, [req])))"

text \<open>\<open>parseUnits("0.001", 6)\<close>: 0.001 USDC in units of \<open>10\<^sup>-\<^sup>6\<close>.\<close>

definition paymentAmount :: int where
  "paymentAmount = 1000"

text \<open>
  Lines 436 to 456: the nonce, the two bounds of the validity window, each from its own
  reading of the clock, and the message. The amount is the local constant above; it is
  an argument here so that the block can be stated for any amount.
\<close>

definition buildAuthorization :: "world \<Rightarrow> account \<Rightarrow> int \<Rightarrow> authorization" where
  "buildAuthorization w acct amount =
     (let nonce = createNonce w;
          validAfter = dateNow w 0 div 1000 - 600;
          validBefore = dateNow w 1 div 1000 + 3600
      in \<lparr>a_from = address acct, a_to = PAYEE_ADDRESS, a_value = amount,
          a_validAfter = validAfter, a_validBefore = validBefore, a_nonce = nonce\<rparr>)"

text \<open>Lines 490 to 505: the payment payload, the numbers of the authorization as strings.\<close>

definition paymentPayload :: "string \<Rightarrow> authorization \<Rightarrow> json" where
  "paymentPayload signature message =
     JObj [(''x402Version'', JNum ''1''), (''scheme'', JStr ''exact''),
           (''network'', JStr ''base-sepolia''),
           (''payload'', JObj [(''signature'', JStr signature),
              (''authorization'', JObj [(''from'', JStr (a_from message)),
                 (''to'', JStr (a_to message)),
                 (''value'', JStr (decimal (a_value message))),
                 (''validAfter'', JStr (decimal (a_validAfter message))),
                 (''validBefore'', JStr (decimal (a_validBefore message))),
                 (''nonce'', JStr (a_nonce message))])])]"

definition paymentHeaderOf :: "string \<Rightarrow> authorization \<Rightarrow> string" where
  "paymentHeaderOf signature message =
     (let paymentJson = JSON_stringify (paymentPayload signature message)
      in base64 (utf8 paymentJson))"

definition paidRequest :: "string \<Rightarrow> string \<Rightarrow> request" where
  "paidRequest apiUrl paymentHeader =
     \<lparr>r_url = apiUrl @ ''/weather'', r_method = ''GET'',
      r_headers = [(''Content-Type'', ''application/json''), (''X-PAYMENT'', paymentHeader)]\<rparr>"

text \<open>
  Lines 514 to 545: the request with the header and the reading of its response. When the
  status is not 200 the code reads \<open>data.error\<close>, which throws for the body \<open>null\<close>.
\<close>

definition sendPayment :: "world \<Rightarrow> string \<Rightarrow> string \<Rightarrow> paymentResult \<times> request list" where
  "sendPayment w apiUrl paymentHeader =
     (let req = paidRequest apiUrl paymentHeader
      in case fetch w req of
           Inl e \<Rightarrow> (caught e, [req])
         | Inr resp \<Rightarrow>
             (case rs_json resp of
                Inl e \<Rightarrow> (caught e, [req])
              | Inr body \<Rightarrow>
                  if rs_status resp = 200 then
                    (\<lparr>success = True, data = Some body, error = None,
                      status = Some (rs_status resp)\<rparr>, [req])
                  else if body = JNull then
                    (caught (Error (nullPropertyMessage w)), [req])
                  else
                    (\<lparr>success = False, data = Some body,
                      error = Some (orElse (getProp body ''error'')
                                (orElse (getProp body ''invalidReason'')
                                   (JStr (''HTTP '' @ decimal (rs_status resp))))),
                      status = Some (rs_status resp)\<rparr>, [req])))"

text \<open>\<open>processPaymentAndFetchWeather\<close>, with the requests it issues.\<close>

definition processPaymentAndFetchWeather ::
  "world \<Rightarrow> string \<Rightarrow> string \<Rightarrow> paymentResult \<times> request list" where
  "processPaymentAndFetchWeather w privateKey apiUrl =
     (case privateKeyToAccount w privateKey of
        Inl e \<Rightarrow> (caught e, [])
      | Inr addr \<Rightarrow>
          (let acct = \<lparr>address = addr, privateKeyOf = privateKey\<rparr>;
               amount = paymentAmount;
               message = buildAuthorization w acct amount
           in case signTypedData w acct EIP3009_DOMAIN TRANSFER_WITH_AUTHORIZATION_TYPEHASH
                     ''TransferWithAuthorization'' message of
                Inl e \<Rightarrow> (caught e, [])
              | Inr signature \<Rightarrow>
                  (case verifyTypedData w (address acct) EIP3009_DOMAIN
                          TRANSFER_WITH_AUTHORIZATION_TYPEHASH ''TransferWithAuthorization''
                          message signature of
                     Inl e \<Rightarrow> (caught e, [])
                   | Inr isValidSignature \<Rightarrow>
                       if \<not> isValidSignature then
                         (\<lparr>success = False, data = None,
                           error = Some (JStr ''Signature verification failed''),
                           status = None\<rparr>, [])
                       else sendPayment w apiUrl (paymentHeaderOf signature message))))"

section \<open>The handler of the action\<close>

text \<open>
  What the handler does that can be seen from outside, in order: the requests it sends
  and the contents it passes to the callback. Of the \<open>ActionResult\<close> the model keeps the
  text, the success flag and \<open>values.error\<close>. The runtime's \<open>getSetting\<close> and the
  callback are taken not to throw.
\<close>

datatype event = Fetch request | Callback content

record actionResult =
  ar_text :: string
  ar_success :: bool
  ar_error :: "json option"

definition DEFAULT_API_URL :: string where
  "DEFAULT_API_URL = ''https://api-qvuk23ycha-uc.a.run.app''"

text \<open>\<open>(runtime.getSetting("WEATHER_API_URL") as string) || "https://..."\<close>\<close>

definition apiUrlOf :: "runtime \<Rightarrow> string" where
  "apiUrlOf rt =
     (case getSetting rt ''WEATHER_API_URL'' of
        None \<Rightarrow> DEFAULT_API_URL
      | Some u \<Rightarrow> if u = [] then DEFAULT_API_URL else u)"

definition reply :: "memory \<Rightarrow> string \<Rightarrow> content" where
  "reply message t =
     \<lparr>c_text = Some t, c_actions = Some [''WEATHER_REPORT''],
      c_source = c_source (m_content message)\<rparr>"

definition NO_PAYMENT_NOTICE :: string where
  "NO_PAYMENT_NOTICE =
     ''X-PAYMENT header not found in the request, please attach the payment header to the request and try again.''"

definition PAYMENT_PROMPT :: string where
  "PAYMENT_PROMPT =
     ''To access weather reports, you need to add a payment of 0.001 USDC. Do you approve this?''"

text \<open>\<open>result.data?.report || result.data\<close>\<close>

definition weatherDataOf :: "paymentResult \<Rightarrow> json option" where
  "weatherDataOf r =
     (case data r of None \<Rightarrow> None | Some d \<Rightarrow> Some (orElse (getProp d ''report'') d))"

text \<open>Lines 714 to 818: the branch of a rejection, which the handler tries first.\<close>

definition handleRejection :: "runtime \<Rightarrow> world \<Rightarrow> memory \<Rightarrow> actionResult \<times> event list" where
  "handleRejection rt w message =
     (let apiUrl = apiUrlOf rt;
          fetched = fetchWeatherWithoutPayment w apiUrl;
          weatherResult = fst fetched;
          sent = map Fetch (snd fetched)
      in if \<not> success weatherResult then
           (let errorMsg = ''Failed to fetch weather data: ''
                  @ js_toString (orElse (error weatherResult) (JStr ''Unknown error''))
            in (\<lparr>ar_text = ''Failed to fetch weather after payment rejection'',
                 ar_success = False,
                 ar_error = Some (orElse (error weatherResult) (JStr ''WEATHER_FETCH_FAILED''))\<rparr>,
                sent @ [Callback (reply message errorMsg)]))
         else
           (\<lparr>ar_text = ''Provided weather report after payment rejection'',
             ar_success = True, ar_error = None\<rparr>,
            sent @ [Callback (reply message NO_PAYMENT_NOTICE)]))"

text \<open>Lines 821 to 954: the branch of an approval.\<close>

definition handleApproval :: "runtime \<Rightarrow> world \<Rightarrow> memory \<Rightarrow> actionResult \<times> event list" where
  "handleApproval rt w message =
     (let privateKey = (case getSetting rt ''PRIVATE_KEY'' of None \<Rightarrow> [] | Some k \<Rightarrow> k);
          apiUrl = apiUrlOf rt
      in if privateKey = [] then
           (\<lparr>ar_text = ''Payment processing failed - missing configuration'',
             ar_success = False, ar_error = Some (JStr ''MISSING_PRIVATE_KEY'')\<rparr>,
            [Callback (reply message
               ''Payment processing failed: PRIVATE_KEY not configured. Please set PRIVATE_KEY in your environment variables.'')])
         else
           (let paid = processPaymentAndFetchWeather w privateKey apiUrl;
                paymentResult = fst paid;
                sent = map Fetch (snd paid)
            in if \<not> success paymentResult then
                 (let errorMsg = ''Payment processing failed: ''
                        @ js_toString (orElse (error paymentResult) (JStr ''Unknown error''))
                  in (\<lparr>ar_text = ''Payment processing failed'', ar_success = False,
                       ar_error = Some (orElse (error paymentResult) (JStr ''PAYMENT_FAILED''))\<rparr>,
                      sent @ [Callback (reply message errorMsg)]))
               else
                 (\<lparr>ar_text = ''Provided weather report after payment approval'',
                   ar_success = True, ar_error = None\<rparr>,
                  sent @ [Callback (reply message
                            (weatherReportText w (weatherDataOf paymentResult)))])))"

text \<open>Lines 955 to 983: neither keyword, the prompt for the payment.\<close>

definition handlePrompt :: "memory \<Rightarrow> actionResult \<times> event list" where
  "handlePrompt message =
     (\<lparr>ar_text = ''Prompted user for payment approval'', ar_success = True, ar_error = None\<rparr>,
      [Callback (reply message PAYMENT_PROMPT)])"

text \<open>
  \<open>weatherReportAction.handler\<close>: the test of \<open>isRejection\<close> comes before the test of
  \<open>isApproval\<close>.
\<close>

definition handler :: "runtime \<Rightarrow> world \<Rightarrow> memory \<Rightarrow> actionResult \<times> event list" where
  "handler rt w message =
     (if isRejection message then handleRejection rt w message
      else if isApproval message then handleApproval rt w message
      else handlePrompt message)"

text \<open>The requests among the events, and whether a request carries the payment header.\<close>

fun requestsOf :: "event list \<Rightarrow> request list" where
  "requestsOf [] = []"
| "requestsOf (Fetch r # es) = r # requestsOf es"
| "requestsOf (Callback c # es) = requestsOf es"

definition carriesPayment :: "request \<Rightarrow> bool" where
  "carriesPayment r = (map_of (r_headers r) ''X-PAYMENT'' \<noteq> None)"

section \<open>Reading the header back\<close>

text \<open>
  The signed authorization that the header carries, and its encoding: lines 490 to 509
  applied to the signature and the message.
\<close>

record signedAuthorization =
  sa_signature :: string
  sa_authorization :: authorization

definition encode :: "signedAuthorization \<Rightarrow> string" where
  "encode x = paymentHeaderOf (sa_signature x) (sa_authorization x)"

text \<open>
  Modelled from the spec: the decoder of the header value, which the repository does not
  contain (it only encodes). The specification asks that decoding exactly inverts
  encoding; the definitions of this section undo the three steps of the encoding in
  turn, base64, UTF-8 and the JSON text of the payment payload, and answer \<open>None\<close> for a
  text the encoding cannot have written.
\<close>

text \<open>Modelled from the spec: the value of a base64 character.\<close>

definition base64Val :: "char \<Rightarrow> nat option" where
  "base64Val c =
     (let n = (of_char c :: nat)
      in if 65 \<le> n \<and> n \<le> 90 then Some (n - 65)
         else if 97 \<le> n \<and> n \<le> 122 then Some (n - 71)
         else if 48 \<le> n \<and> n \<le> 57 then Some (n + 4)
         else if n = 43 then Some 62
         else if n = 47 then Some 63
         else None)"

text \<open>Modelled from the spec: the padding character \<open>=\<close>.\<close>

definition isPad :: "char \<Rightarrow> bool" where
  "isPad c = (of_char c = (61::nat))"

text \<open>Modelled from the spec: the bytes of a padded base64 text, four characters at a time.\<close>

fun unbase64 :: "string \<Rightarrow> string option" where
  "unbase64 (a # b # c # d # rest) =
     (case base64Val a of None \<Rightarrow> None | Some p \<Rightarrow>
     (case base64Val b of None \<Rightarrow> None | Some q \<Rightarrow>
        if isPad c \<and> isPad d \<and> rest = [] then Some [char_of (p * 4 + q div 16)]
        else
          (case base64Val c of None \<Rightarrow> None | Some r \<Rightarrow>
             if isPad d \<and> rest = []
             then Some [char_of (p * 4 + q div 16), char_of ((q mod 16) * 16 + r div 4)]
             else
               (case base64Val d of None \<Rightarrow> None | Some s \<Rightarrow>
                  map_option
                    (\<lambda>bytes. char_of (p * 4 + q div 16) # char_of ((q mod 16) * 16 + r div 4)
                       # char_of ((r mod 4) * 64 + s) # bytes)
                    (unbase64 rest)))))"
| "unbase64 [] = Some []"
| "unbase64 (a # rest) = None"

text \<open>
  Modelled from the spec: the code units of a UTF-8 text, for the code units below 256
  (one byte, or a lead byte 194 or 195 and a continuation byte).
\<close>

fun utf8Decode :: "string \<Rightarrow> string option" where
  "utf8Decode [] = Some []"
| "utf8Decode (c # cs) =
     (let n = (of_char c :: nat)
      in if n < 128 then map_option (\<lambda>s. c # s) (utf8Decode cs)
         else if n = 194 \<or> n = 195 then
           (case cs of
              [] \<Rightarrow> None
            | d # ds \<Rightarrow>
                (let m = (of_char d :: nat)
                 in if 128 \<le> m \<and> m < 192
                    then map_option (\<lambda>s. char_of ((n - 192) * 64 + (m - 128)) # s)
                           (utf8Decode ds)
                    else None))
         else None)"

text \<open>Modelled from the spec: the integer a decimal string stands for.\<close>

definition digitVal :: "char \<Rightarrow> nat option" where
  "digitVal c =
     (let n = (of_char c :: nat) in if 48 \<le> n \<and> n \<le> 57 then Some (n - 48) else None)"

fun parseNat :: "nat \<Rightarrow> string \<Rightarrow> nat option" where
  "parseNat acc [] = Some acc"
| "parseNat acc (c # cs) =
     (case digitVal c of None \<Rightarrow> None | Some d \<Rightarrow> parseNat (10 * acc + d) cs)"

definition parseDecimal :: "string \<Rightarrow> int option" where
  "parseDecimal s =
     (case s of
        [] \<Rightarrow> None
      | c # cs \<Rightarrow>
          if of_char c = (45::nat)
          then (if cs = [] then None else map_option (\<lambda>n. - int n) (parseNat 0 cs))
          else map_option int (parseNat 0 s))"

text \<open>
  Modelled from the spec: the reading of a JSON string literal, with the escapes of JSON
  (\<open>\u\<close> escapes for the code units below 256); it gives the string and the text after
  the closing quotation mark.
\<close>

definition hexVal :: "char \<Rightarrow> nat option" where
  "hexVal c =
     (let n = (of_char c :: nat)
      in if 48 \<le> n \<and> n \<le> 57 then Some (n - 48)
         else if 97 \<le> n \<and> n \<le> 102 then Some (n - 87)
         else if 65 \<le> n \<and> n \<le> 70 then Some (n - 55)
         else None)"

definition unescape :: "char \<Rightarrow> char option" where
  "unescape e =
     (let n = (of_char e :: nat)
      in if n = 34 \<or> n = 92 \<or> n = 47 then Some e
         else if n = 98 then Some (char_of (8::nat))
         else if n = 116 then Some (char_of (9::nat))
         else if n = 110 then Some (char_of (10::nat))
         else if n = 102 then Some (char_of (12::nat))
         else if n = 114 then Some (char_of (13::nat))
         else None)"

definition hexPair :: "char \<Rightarrow> char \<Rightarrow> char \<Rightarrow> char \<Rightarrow> char option" where
  "hexPair h1 h2 h3 h4 =
     (case hexVal h1 of None \<Rightarrow> None | Some a \<Rightarrow>
     (case hexVal h2 of None \<Rightarrow> None | Some b \<Rightarrow>
     (case hexVal h3 of None \<Rightarrow> None | Some p \<Rightarrow>
     (case hexVal h4 of None \<Rightarrow> None | Some q \<Rightarrow>
        if a = 0 \<and> b = 0 then Some (char_of (16 * p + q)) else None))))"

definition consResult :: "char \<Rightarrow> (string \<times> string) option \<Rightarrow> (string \<times> string) option" where
  "consResult c res = map_option (\<lambda>sr. (c # fst sr, snd sr)) res"

fun readChars :: "string \<Rightarrow> (string \<times> string) option" where
  "readChars [] = None"
| "readChars (c # cs) =
     (let n = (of_char c :: nat)
      in if n = 34 then Some ([], cs)
         else if n = 92 then
           (case cs of
              [] \<Rightarrow> None
            | e # es \<Rightarrow>
                if of_char e = (117::nat) then
                  (case es of
                     h1 # h2 # h3 # h4 # rest \<Rightarrow>
                       (case hexPair h1 h2 h3 h4 of
                          None \<Rightarrow> None
                        | Some ch \<Rightarrow> consResult ch (readChars rest))
                   | _ \<Rightarrow> None)
                else
                  (case unescape e of
                     None \<Rightarrow> None
                   | Some ch \<Rightarrow> consResult ch (readChars es)))
         else if n < 32 then None
         else consResult c (readChars cs))"

definition readString :: "string \<Rightarrow> (string \<times> string) option" where
  "readString s =
     (case s of [] \<Rightarrow> None | c # cs \<Rightarrow> if of_char c = (34::nat) then readChars cs else None)"

text \<open>Modelled from the spec: the text after a given beginning.\<close>

fun expect :: "string \<Rightarrow> string \<Rightarrow> string option" where
  "expect [] s = Some s"
| "expect (p # ps) [] = None"
| "expect (p # ps) (c # cs) = (if p = c then expect ps cs else None)"

text \<open>
  Modelled from the spec: the reading of the JSON text of a payment payload, key by key
  in the order of section 6 of the specification.
\<close>

definition parsePayload :: "string \<Rightarrow> signedAuthorization option" where
  \<open>parsePayload text = do {
     r \<leftarrow> expect ''{"x402Version":1,"scheme":"exact","network":"base-sepolia","payload":{"signature":'' text;
     (signature, r) \<leftarrow> readString r;
     r \<leftarrow> expect '',"authorization":{"from":'' r;
     (sender, r) \<leftarrow> readString r;
     r \<leftarrow> expect '',"to":'' r;
     (payee, r) \<leftarrow> readString r;
     r \<leftarrow> expect '',"value":'' r;
     (v, r) \<leftarrow> readString r;
     amount \<leftarrow> parseDecimal v;
     r \<leftarrow> expect '',"validAfter":'' r;
     (va, r) \<leftarrow> readString r;
     validAfter \<leftarrow> parseDecimal va;
     r \<leftarrow> expect '',"validBefore":'' r;
     (vb, r) \<leftarrow> readString r;
     validBefore \<leftarrow> parseDecimal vb;
     r \<leftarrow> expect '',"nonce":'' r;
     (nonce, r) \<leftarrow> readString r;
     r \<leftarrow> expect ''}}}'' r;
     if r = [] then
       Some \<lparr>sa_signature = signature,
             sa_authorization =
               \<lparr>a_from = sender, a_to = payee, a_value = amount, a_validAfter = validAfter,
                a_validBefore = validBefore, a_nonce = nonce\<rparr>\<rparr>
     else None
   }\<close>

text \<open>Modelled from the spec: \<open>decode\<close>, the inverse of \<open>encode\<close>.\<close>

definition decode :: "string \<Rightarrow> signedAuthorization option" where
  "decode header = do {
     bytes \<leftarrow> unbase64 header;
     paymentJson \<leftarrow> utf8Decode bytes;
     parsePayload paymentJson
   }"

section \<open>Example runs\<close>

definition userMessage :: "string \<Rightarrow> memory" where
  "userMessage t = \<lparr>m_content = \<lparr>c_text = Some t, c_actions = None, c_source = None\<rparr>\<rparr>"

definition promptMemory :: memory where
  "promptMemory =
     \<lparr>m_content = \<lparr>c_text = Some PAYMENT_PROMPT, c_actions = Some [''WEATHER_REPORT''],
        c_source = None\<rparr>\<rparr>"

text \<open>A runtime with a private key configured and the given outcome of \<open>getMemories\<close>.\<close>

definition runtimeWith :: "thrown + memory list \<Rightarrow> runtime" where
  "runtimeWith mems =
     \<lparr>getMemories = mems,
      getSetting = (\<lambda>k. if k = ''PRIVATE_KEY'' then Some ''0x01'' else None)\<rparr>"

text \<open>
  A world whose verification answers \<open>valid\<close>, whose clock stands at 1690000000123 ms and
  whose server answers every request with the status \<open>st\<close> and the body \<open>body\<close>.
\<close>

definition demoWorld :: "bool \<Rightarrow> int \<Rightarrow> json \<Rightarrow> world" where
  "demoWorld valid st body =
     \<lparr>privateKeyToAccount = (\<lambda>k. Inr ''0x7E5F4552091A69125d5DfCb7b8C2659029395Bdf''),
      signTypedData = (\<lambda>acct dom types primaryType message. Inr ''0x5a1f''),
      verifyTypedData = (\<lambda>addr dom types primaryType message signature. Inr valid),
      randomValues = (\<lambda>i. char_of (7 * i + 1)),
      dateNow = (\<lambda>k. 1690000000123),
      fetch = (\<lambda>req. Inr \<lparr>rs_status = st, rs_statusText = [], rs_json = Inr body\<rparr>),
      nullPropertyMessage = ''null is not an object'',
      weatherReportText = (\<lambda>d. ''Weather Report'')\<rparr>"

definition demoAccount :: account where
  "demoAccount =
     \<lparr>address = ''0x7E5F4552091A69125d5DfCb7b8C2659029395Bdf'', privateKeyOf = ''0x01''\<rparr>"

definition paymentRequired :: json where
  "paymentRequired = JObj [(''error'', JStr ''X-PAYMENT header is required'')]"

definition insufficientFunds :: json where
  "insufficientFunds = JObj [(''invalidReason'', JStr ''insufficient_funds'')]"

definition sunny :: json where
  "sunny = JObj [(''report'', JStr ''sunny'')]"

text \<open>A world whose network is down: \<open>fetch\<close> throws.\<close>

definition offlineWorld :: world where
  "offlineWorld =
     (demoWorld True 200 sunny)\<lparr>fetch := (\<lambda>req. Inl (Error ''fetch failed''))\<rparr>"

text \<open>
  A world whose server answers 502 with a page that is not JSON: \<open>response.json()\<close>
  throws.
\<close>

definition gatewayWorld :: world where
  "gatewayWorld =
     (demoWorld True 200 sunny)
       \<lparr>fetch := (\<lambda>req. Inr \<lparr>rs_status = 502, rs_statusText = ''Bad Gateway'',
                                 rs_json = Inl (Error ''Unexpected token < in JSON'')\<rparr>)\<rparr>"

text \<open>
  A world whose clock passes from one second to the next between the two readings:
  1690000000999 ms at the first, 1690000001000 ms at the second.
\<close>

definition tickingWorld :: world where
  "tickingWorld =
     (demoWorld True 200 sunny)
       \<lparr>dateNow := (\<lambda>k. if k = 0 then 1690000000999 else 1690000001000)\<rparr>"

text \<open>What the pipeline signs and sends in \<open>demoWorld\<close>.\<close>

definition demoSigned :: signedAuthorization where
  "demoSigned =
     \<lparr>sa_signature = ''0x5a1f'',
      sa_authorization = buildAuthorization (demoWorld True 200 sunny) demoAccount paymentAmount\<rparr>"

definition demoJson :: string where
  \<open>demoJson =
     ''{"x402Version":1,"scheme":"exact","network":"base-sepolia","payload":{"signature":"0x5a1f","authorization":{"from":"0x7E5F4552091A69125d5DfCb7b8C2659029395Bdf","to":"0x903918bB1903714E0518Ea2122aCeBfa27f11b6F","value":"1000","validAfter":"1689999400","validBefore":"1690003600","nonce":"0x01080f161d242b323940474e555c636a71787f868d949ba2a9b0b7bec5ccd3da"}}}''\<close>

definition demoHeader :: string where
  "demoHeader =
     ''eyJ4NDAyVmVyc2lvbiI6MSwic2NoZW1lIjoiZXhhY3QiLCJuZXR3b3JrIjoiYmFzZS1zZXBvbGlhIiwicGF5bG9hZCI6eyJzaWduYXR1cmUiOiIweDVhMWYiLCJhdXRob3JpemF0aW9uIjp7ImZyb20iOiIweDdFNUY0NTUyMDkxQTY5MTI1ZDVEZkNiN2I4QzI2NTkwMjkzOTVCZGYiLCJ0byI6IjB4OTAzOTE4YkIxOTAzNzE0RTA1MThFYTIxMjJhQ2VCZmEyN2YxMWI2RiIsInZhbHVlIjoiMTAwMCIsInZhbGlkQWZ0ZXIiOiIxNjg5OTk5NDAwIiwidmFsaWRCZWZvcmUiOiIxNjkwMDAzNjAwIiwibm9uY2UiOiIweDAxMDgwZjE2MWQyNDJiMzIzOTQwNDc0ZTU1NWM2MzZhNzE3ODdmODY4ZDk0OWJhMmE5YjBiN2JlYzVjY2QzZGEifX19''"

definition bothKeywords :: memory where
  "bothKeywords = userMessage ''No, do not proceed''"

definition weatherNow :: memory where
  "weatherNow = userMessage ''what's the weather now''"

text \<open>
  The lookback finds nothing: the fetch of the memories throws, or no memory among those
  found is a payment prompt (as when there is none at all).
\<close>

definition snapshotUnavailable :: "runtime \<Rightarrow> bool" where
  "snapshotUnavailable rt =
     (case getMemories rt of Inl e \<Rightarrow> True | Inr mems \<Rightarrow> \<not> list_ex paymentPromptIn mems)"

section \<open>Properties of the approval gate\<close>

text \<open>\<open>str_includes\<close> is the test for a substring.\<close>

lemma startsWith_iff: "startsWith s k \<longleftrightarrow> (\<exists>post. s = k @ post)"
  by (induction s k rule: startsWith.induct) auto

lemma str_includes_iff: "str_includes s k \<longleftrightarrow> (\<exists>pre post. s = pre @ k @ post)"
proof (induction s)
  case Nil
  then show ?case by simp
next
  case (Cons c cs)
  show ?case
  proof
    assume "str_includes (c # cs) k"
    then consider "startsWith (c # cs) k" | "str_includes cs k" by auto
    then show "\<exists>pre post. c # cs = pre @ k @ post"
    proof cases
      case 1
      then obtain post where "c # cs = k @ post" using startsWith_iff by blast
      then have "c # cs = [] @ k @ post" by simp
      then show ?thesis by blast
    next
      case 2
      then obtain pre post where "cs = pre @ k @ post" using Cons.IH by blast
      then have "c # cs = (c # pre) @ k @ post" by simp
      then show ?thesis by blast
    qed
  next
    assume "\<exists>pre post. c # cs = pre @ k @ post"
    then obtain pre post where e: "c # cs = pre @ k @ post" by blast
    show "str_includes (c # cs) k"
    proof (cases pre)
      case Nil
      then have "startsWith (c # cs) k" using e startsWith_iff by auto
      then show ?thesis by simp
    next
      case (Cons p ps)
      then have "cs = ps @ k @ post" using e by simp
      then have "str_includes cs k" using Cons.IH by blast
      then show ?thesis by simp
    qed
  qed
qed

lemma requestsOf_sent [simp]: "requestsOf (map Fetch rs @ [Callback c]) = rs"
  by (induction rs) simp_all

lemma fetchWeatherWithoutPayment_requests:
  "snd (fetchWeatherWithoutPayment w u) = [plainRequest u]"
  by (simp add: fetchWeatherWithoutPayment_def Let_def split: sum.splits)

lemma handleRejection_requests:
  "requestsOf (snd (handleRejection rt w m)) = [plainRequest (apiUrlOf rt)]"
  by (simp add: handleRejection_def Let_def fetchWeatherWithoutPayment_requests)

lemma plainRequest_unpaid: "\<not> carriesPayment (plainRequest u)"
  by (simp add: carriesPayment_def plainRequest_def)

lemma handleRejection_no_prompt:
  "Callback (reply m PAYMENT_PROMPT) \<notin> set (snd (handleRejection rt w m))"
  by (auto simp add: handleRejection_def Let_def reply_def PAYMENT_PROMPT_def
      NO_PAYMENT_NOTICE_def)

text \<open>
  C1. When the lookback finds no payment prompt or the fetch of the memories throws, a
  message with an approval keyword is refused by \<open>validate\<close>, and a message with a
  rejection keyword and no approval keyword is accepted by \<open>validate\<close> and handled by the
  request without payment.
\<close>

theorem gate_fails_closed_on_approval_open_on_rejection:
  assumes "snapshotUnavailable rt"
  shows "(isApproval a \<longrightarrow> \<not> validate rt a) \<and>
         (isRejection r \<and> \<not> isApproval r \<longrightarrow>
            validate rt r \<and> requestsOf (snd (handler rt w r)) = [plainRequest (apiUrlOf rt)])"
  using assms
  by (auto simp add: snapshotUnavailable_def validate_def handler_def handleRejection_requests
      split: sum.splits)

theorem gate_fails_closed_open_witness:
  "snapshotUnavailable (runtimeWith (Inr [])) \<and>
   snapshotUnavailable (runtimeWith (Inl (Error ''no database''))) \<and>
   isApproval (userMessage ''Yes'') \<and>
   \<not> validate (runtimeWith (Inr [])) (userMessage ''Yes'') \<and>
   \<not> validate (runtimeWith (Inl (Error ''no database''))) (userMessage ''Yes'') \<and>
   isRejection (userMessage ''No'') \<and> \<not> isApproval (userMessage ''No'') \<and>
   validate (runtimeWith (Inr [])) (userMessage ''No'') \<and>
   validate (runtimeWith (Inl (Error ''no database''))) (userMessage ''No'')"
proof -
  have e: "snapshotUnavailable (runtimeWith (Inr []))"
    by (simp add: snapshotUnavailable_def runtimeWith_def)
  have t: "snapshotUnavailable (runtimeWith (Inl (Error ''no database'')))"
    by (simp add: snapshotUnavailable_def runtimeWith_def)
  have y: "isApproval (userMessage ''Yes'')" by code_simp
  have n: "isRejection (userMessage ''No'')" by code_simp
  have n': "\<not> isApproval (userMessage ''No'')" by code_simp
  show ?thesis
    using e t y n n'
      gate_fails_closed_on_approval_open_on_rejection
        [OF e, of "userMessage ''Yes''" "userMessage ''No''"]
      gate_fails_closed_on_approval_open_on_rejection
        [OF t, of "userMessage ''Yes''" "userMessage ''No''"]
    by simp
qed

text \<open>
  C2, as the claim states it, fails: the message "No, do not proceed" holds the approval
  keyword "proceed" and the rejection keyword "no"; with a payment prompt in the
  history \<open>validate\<close> accepts it, and the handler sends the request without payment and
  answers with the notice of the missing header.
\<close>

theorem both_keywords_counterexample:
  "isApproval bothKeywords \<and> isRejection bothKeywords \<and>
   validate (runtimeWith (Inr [promptMemory])) bothKeywords \<and>
   snd (handler (runtimeWith (Inr [promptMemory])) (demoWorld True 200 sunny) bothKeywords) =
     [Fetch (plainRequest DEFAULT_API_URL), Callback (reply bothKeywords NO_PAYMENT_NOTICE)]"
  by code_simp

text \<open>
  C2, amended. For a message with both an approval and a rejection keyword, \<open>validate\<close>
  tests the approval first and answers what the lookback finds; the handler tests the
  rejection first, so the message is handled as a rejection: the one request sent is the
  request without payment, and no request carries the payment header.
\<close>

theorem both_keywords_handled_as_rejection:
  assumes "isApproval m" and "isRejection m"
  shows "validate rt m =
           (case getMemories rt of Inr mems \<Rightarrow> list_ex paymentPromptIn mems | Inl e \<Rightarrow> False) \<and>
         handler rt w m = handleRejection rt w m \<and>
         requestsOf (snd (handler rt w m)) = [plainRequest (apiUrlOf rt)] \<and>
         \<not> list_ex carriesPayment (requestsOf (snd (handler rt w m)))"
  using assms
  by (simp add: validate_def handler_def handleRejection_requests plainRequest_unpaid)

theorem both_keywords_witness:
  "isApproval bothKeywords \<and> isRejection bothKeywords \<and>
   handler (runtimeWith (Inr [promptMemory])) (demoWorld True 200 sunny) bothKeywords =
     handleRejection (runtimeWith (Inr [promptMemory])) (demoWorld True 200 sunny) bothKeywords \<and>
   \<not> list_ex carriesPayment
       (requestsOf (snd (handler (runtimeWith (Inr [promptMemory])) (demoWorld True 200 sunny)
          bothKeywords)))"
proof -
  have a: "isApproval bothKeywords" by code_simp
  have r: "isRejection bothKeywords" by code_simp
  show ?thesis
    using a r both_keywords_handled_as_rejection
        [OF a r, of "runtimeWith (Inr [promptMemory])" "demoWorld True 200 sunny"]
    by blast
qed

text \<open>
  C10. A weather request whose text holds a rejection keyword is handled as a rejection:
  the handler sends the request without payment and does not prompt for the payment.
  "what's the weather now" is such a message ("no" in "now"); it holds no approval
  keyword, and \<open>validate\<close> accepts it whatever the history.
\<close>

theorem weather_request_routed_to_rejection:
  "(isWeatherRequest m \<and> isRejection m \<longrightarrow>
      handler rt w m = handleRejection rt w m \<and>
      requestsOf (snd (handler rt w m)) = [plainRequest (apiUrlOf rt)] \<and>
      Callback (reply m PAYMENT_PROMPT) \<notin> set (snd (handler rt w m))) \<and>
   isWeatherRequest weatherNow \<and> isRejection weatherNow \<and> \<not> isApproval weatherNow \<and>
   validate rt weatherNow"
proof -
  have w: "isWeatherRequest weatherNow" by code_simp
  have r: "isRejection weatherNow" by code_simp
  have a: "\<not> isApproval weatherNow" by code_simp
  have v: "validate rt weatherNow"
    using r a by (simp add: validate_def split: sum.splits)
  show ?thesis
    using w r a v by (simp add: handler_def handleRejection_requests handleRejection_no_prompt)
qed

theorem weather_request_routed_witness:
  "isWeatherRequest weatherNow \<and> isRejection weatherNow \<and>
   snd (handler (runtimeWith (Inr [])) (demoWorld True 402 paymentRequired) weatherNow) =
     [Fetch (plainRequest DEFAULT_API_URL), Callback (reply weatherNow NO_PAYMENT_NOTICE)]"
proof -
  have e: "snd (handleRejection (runtimeWith (Inr [])) (demoWorld True 402 paymentRequired)
             weatherNow) =
     [Fetch (plainRequest DEFAULT_API_URL), Callback (reply weatherNow NO_PAYMENT_NOTICE)]"
    by code_simp
  show ?thesis
    using e weather_request_routed_to_rejection
        [of weatherNow "runtimeWith (Inr [])" "demoWorld True 402 paymentRequired"]
    by simp
qed

section \<open>Properties of the transport\<close>

lemma sendPayment_requests: "snd (sendPayment w u h) = [paidRequest u h]"
  by (simp add: sendPayment_def Let_def split: sum.splits)

lemma pipeline_single_attempt:
  "length (snd (processPaymentAndFetchWeather w privateKey apiUrl)) \<le> 1"
  by (simp add: processPaymentAndFetchWeather_def Let_def sendPayment_requests
      split: sum.splits)

lemma handler_single_attempt: "length (requestsOf (snd (handler rt w m))) \<le> 1"
proof -
  have r: "length (requestsOf (snd (handleRejection rt w m))) \<le> 1"
    by (simp add: handleRejection_requests)
  have a: "length (requestsOf (snd (handleApproval rt w m))) \<le> 1"
    using pipeline_single_attempt
    by (simp add: handleApproval_def Let_def)
  have p: "length (requestsOf (snd (handlePrompt m))) \<le> 1"
    by (simp add: handlePrompt_def)
  show ?thesis using r a p by (simp add: handler_def)
qed

text \<open>
  C3, as the claim states it, fails: to the status 402 with a JSON body the request
  without payment answers with a success that carries the status 402.
\<close>

theorem unpaid_status_counterexample:
  "fetchWeatherWithoutPayment (demoWorld True 402 paymentRequired) DEFAULT_API_URL =
     (\<lparr>success = True, data = Some paymentRequired, error = None, status = Some 402\<rparr>,
      [plainRequest DEFAULT_API_URL])"
  by (simp add: fetchWeatherWithoutPayment_def demoWorld_def)

text \<open>
  C3, amended. The request without payment does not look at the status: for every
  response whose body parses, the outcome is a success that carries the body and the
  status, whatever the status is. The outcome is a failure exactly when \<open>fetch\<close> or the
  parsing of the body throws; the failure carries the message of what was thrown, no
  body and no status.
\<close>

theorem unpaid_outcome_ignores_status:
  "(fetch w (plainRequest apiUrl) = Inr resp \<and> rs_json resp = Inr body \<longrightarrow>
      fetchWeatherWithoutPayment w apiUrl =
        (\<lparr>success = True, data = Some body, error = None, status = Some (rs_status resp)\<rparr>,
         [plainRequest apiUrl])) \<and>
   (fetch w (plainRequest apiUrl) = Inl e \<longrightarrow>
      fetchWeatherWithoutPayment w apiUrl =
        (\<lparr>success = False, data = None, error = Some (JStr (thrownMessage e)), status = None\<rparr>,
         [plainRequest apiUrl])) \<and>
   (fetch w (plainRequest apiUrl) = Inr resp \<and> rs_json resp = Inl e \<longrightarrow>
      fetchWeatherWithoutPayment w apiUrl =
        (\<lparr>success = False, data = None, error = Some (JStr (thrownMessage e)), status = None\<rparr>,
         [plainRequest apiUrl])) \<and>
   success (fst (fetchWeatherWithoutPayment w apiUrl)) =
     (\<exists>r b. fetch w (plainRequest apiUrl) = Inr r \<and> rs_json r = Inr b) \<and>
   thrownMessage (Error msg) = msg \<and> thrownMessage NonError = ''Unknown error occurred''"
proof -
  have outcome:
    "fetchWeatherWithoutPayment w apiUrl =
       (case fetch w (plainRequest apiUrl) of
          Inl e \<Rightarrow> (caught e, [plainRequest apiUrl])
        | Inr resp \<Rightarrow>
            (case rs_json resp of
               Inl e \<Rightarrow> (caught e, [plainRequest apiUrl])
             | Inr body \<Rightarrow>
                 (\<lparr>success = True, data = Some body, error = None,
                   status = Some (rs_status resp)\<rparr>, [plainRequest apiUrl])))"
    by (simp add: fetchWeatherWithoutPayment_def Let_def)
  have exactly: "success (fst (fetchWeatherWithoutPayment w apiUrl)) =
      (\<exists>r b. fetch w (plainRequest apiUrl) = Inr r \<and> rs_json r = Inr b)"
  proof (cases "fetch w (plainRequest apiUrl)")
    case (Inl thrown)
    then show ?thesis by (simp add: outcome caught_def)
  next
    case (Inr r)
    then show ?thesis by (cases "rs_json r") (simp_all add: outcome caught_def)
  qed
  show ?thesis
    unfolding exactly by (simp add: outcome caught_def thrownMessage_def)
qed

theorem unpaid_outcome_witness:
  "fetchWeatherWithoutPayment (demoWorld True 500 sunny) DEFAULT_API_URL =
     (\<lparr>success = True, data = Some sunny, error = None, status = Some 500\<rparr>,
      [plainRequest DEFAULT_API_URL]) \<and>
   fetchWeatherWithoutPayment offlineWorld DEFAULT_API_URL =
     (\<lparr>success = False, data = None, error = Some (JStr ''fetch failed''), status = None\<rparr>,
      [plainRequest DEFAULT_API_URL]) \<and>
   fetchWeatherWithoutPayment gatewayWorld DEFAULT_API_URL =
     (\<lparr>success = False, data = None, error = Some (JStr ''Unexpected token < in JSON''),
       status = None\<rparr>,
      [plainRequest DEFAULT_API_URL])"
proof -
  have parsed: "fetch (demoWorld True 500 sunny) (plainRequest DEFAULT_API_URL) =
      Inr \<lparr>rs_status = 500, rs_statusText = [], rs_json = Inr sunny\<rparr>"
    by (simp add: demoWorld_def)
  have down: "fetch offlineWorld (plainRequest DEFAULT_API_URL) = Inl (Error ''fetch failed'')"
    by (simp add: offlineWorld_def)
  have page: "fetch gatewayWorld (plainRequest DEFAULT_API_URL) =
      Inr \<lparr>rs_status = 502, rs_statusText = ''Bad Gateway'',
           rs_json = Inl (Error ''Unexpected token < in JSON'')\<rparr>"
    by (simp add: gatewayWorld_def)
  show ?thesis
    using parsed down page
      unpaid_outcome_ignores_status [of "demoWorld True 500 sunny" DEFAULT_API_URL
        "\<lparr>rs_status = 500, rs_statusText = [], rs_json = Inr sunny\<rparr>" sunny]
      unpaid_outcome_ignores_status [of offlineWorld DEFAULT_API_URL _ _ "Error ''fetch failed''"
        "''fetch failed''"]
      unpaid_outcome_ignores_status [of gatewayWorld DEFAULT_API_URL
        "\<lparr>rs_status = 502, rs_statusText = ''Bad Gateway'',
          rs_json = Inl (Error ''Unexpected token < in JSON'')\<rparr>" _
        "Error ''Unexpected token < in JSON''" "''Unexpected token < in JSON''"]
    by simp
qed

text \<open>
  C7, as the claim states it, fails: a status other than 200 does not always give a
  failure that carries the status. To the status 402 with the body \<open>null\<close>, and to the
  status 502 with a body that is not JSON, the outcome is the failure of the \<open>catch\<close>,
  with the message of what was thrown, no body and no status.
\<close>

theorem paid_status_counterexample:
  "sendPayment (demoWorld True 402 JNull) DEFAULT_API_URL demoHeader =
     (\<lparr>success = False, data = None, error = Some (JStr ''null is not an object''),
       status = None\<rparr>,
      [paidRequest DEFAULT_API_URL demoHeader]) \<and>
   sendPayment gatewayWorld DEFAULT_API_URL demoHeader =
     (\<lparr>success = False, data = None, error = Some (JStr ''Unexpected token < in JSON''),
       status = None\<rparr>,
      [paidRequest DEFAULT_API_URL demoHeader])"
  by (simp add: sendPayment_def demoWorld_def gatewayWorld_def caught_def thrownMessage_def)

text \<open>
  C7, amended. The request with the payment header is read by its status when its body
  parses: the status 200 gives a success with the body, and any other status, the body
  not being \<open>null\<close>, gives a failure that carries the body, the status and, as its error,
  the body's \<open>error\<close>, else its \<open>invalidReason\<close>, else \<open>HTTP\<close> and the status. When \<open>fetch\<close>
  or the parsing of the body throws, whatever the status, and when the status is not
  200 and the body is \<open>null\<close>, the outcome is a failure that carries the message of what
  was thrown, no body and no status. One request is sent and no more, whatever the
  answer; neither the whole pipeline nor the handler ever sends a second one.
\<close>

theorem paid_outcome_by_status:
  "(fetch w (paidRequest apiUrl paymentHeader) = Inr resp \<and> rs_json resp = Inr body \<and>
    rs_status resp = 200 \<longrightarrow>
      fst (sendPayment w apiUrl paymentHeader) =
        \<lparr>success = True, data = Some body, error = None, status = Some 200\<rparr>) \<and>
   (fetch w (paidRequest apiUrl paymentHeader) = Inr resp \<and> rs_json resp = Inr body \<and>
    rs_status resp \<noteq> 200 \<and> body \<noteq> JNull \<longrightarrow>
      fst (sendPayment w apiUrl paymentHeader) =
        \<lparr>success = False, data = Some body,
         error = Some (orElse (getProp body ''error'')
                   (orElse (getProp body ''invalidReason'')
                      (JStr (''HTTP '' @ decimal (rs_status resp))))),
         status = Some (rs_status resp)\<rparr>) \<and>
   (fetch w (paidRequest apiUrl paymentHeader) = Inr resp \<and> rs_json resp = Inr JNull \<and>
    rs_status resp \<noteq> 200 \<longrightarrow>
      fst (sendPayment w apiUrl paymentHeader) =
        \<lparr>success = False, data = None, error = Some (JStr (nullPropertyMessage w)),
         status = None\<rparr>) \<and>
   (fetch w (paidRequest apiUrl paymentHeader) = Inr resp \<and> rs_json resp = Inl e \<longrightarrow>
      fst (sendPayment w apiUrl paymentHeader) =
        \<lparr>success = False, data = None, error = Some (JStr (thrownMessage e)),
         status = None\<rparr>) \<and>
   (fetch w (paidRequest apiUrl paymentHeader) = Inl e \<longrightarrow>
      fst (sendPayment w apiUrl paymentHeader) =
        \<lparr>success = False, data = None, error = Some (JStr (thrownMessage e)),
         status = None\<rparr>) \<and>
   snd (sendPayment w apiUrl paymentHeader) = [paidRequest apiUrl paymentHeader] \<and>
   length (snd (processPaymentAndFetchWeather w privateKey apiUrl)) \<le> 1 \<and>
   length (requestsOf (snd (handler rt w m))) \<le> 1"
proof -
  have one: "snd (sendPayment w apiUrl paymentHeader) = [paidRequest apiUrl paymentHeader]"
    by (rule sendPayment_requests)
  have outcome:
    "fst (sendPayment w apiUrl paymentHeader) =
       (case fetch w (paidRequest apiUrl paymentHeader) of
          Inl e \<Rightarrow> caught e
        | Inr resp \<Rightarrow>
            (case rs_json resp of
               Inl e \<Rightarrow> caught e
             | Inr body \<Rightarrow>
                 if rs_status resp = 200 then
                   \<lparr>success = True, data = Some body, error = None, status = Some 200\<rparr>
                 else if body = JNull then caught (Error (nullPropertyMessage w))
                 else
                   \<lparr>success = False, data = Some body,
                    error = Some (orElse (getProp body ''error'')
                              (orElse (getProp body ''invalidReason'')
                                 (JStr (''HTTP '' @ decimal (rs_status resp))))),
                    status = Some (rs_status resp)\<rparr>))"
    by (simp add: sendPayment_def Let_def split: sum.splits)
  show ?thesis
    unfolding outcome one
    using pipeline_single_attempt [of w privateKey apiUrl] handler_single_attempt [of rt w m]
    by (simp add: caught_def thrownMessage_def)
qed

theorem paid_outcome_witness:
  "fst (sendPayment (demoWorld True 200 sunny) DEFAULT_API_URL demoHeader) =
     \<lparr>success = True, data = Some sunny, error = None, status = Some 200\<rparr> \<and>
   fst (sendPayment (demoWorld True 402 insufficientFunds) DEFAULT_API_URL demoHeader) =
     \<lparr>success = False, data = Some insufficientFunds,
      error = Some (JStr ''insufficient_funds''), status = Some 402\<rparr> \<and>
   fst (sendPayment (demoWorld True 402 JNull) DEFAULT_API_URL demoHeader) =
     \<lparr>success = False, data = None, error = Some (JStr ''null is not an object''),
      status = None\<rparr> \<and>
   fst (sendPayment gatewayWorld DEFAULT_API_URL demoHeader) =
     \<lparr>success = False, data = None, error = Some (JStr ''Unexpected token < in JSON''),
      status = None\<rparr> \<and>
   fst (sendPayment offlineWorld DEFAULT_API_URL demoHeader) =
     \<lparr>success = False, data = None, error = Some (JStr ''fetch failed''), status = None\<rparr> \<and>
   snd (sendPayment (demoWorld True 402 insufficientFunds) DEFAULT_API_URL demoHeader) =
     [paidRequest DEFAULT_API_URL demoHeader]"
proof -
  have ok: "fetch (demoWorld True 200 sunny) (paidRequest DEFAULT_API_URL demoHeader) =
      Inr \<lparr>rs_status = 200, rs_statusText = [], rs_json = Inr sunny\<rparr>"
    by (simp add: demoWorld_def)
  have refused: "fetch (demoWorld True 402 insufficientFunds)
        (paidRequest DEFAULT_API_URL demoHeader) =
      Inr \<lparr>rs_status = 402, rs_statusText = [], rs_json = Inr insufficientFunds\<rparr>"
    by (simp add: demoWorld_def)
  have null: "fetch (demoWorld True 402 JNull) (paidRequest DEFAULT_API_URL demoHeader) =
      Inr \<lparr>rs_status = 402, rs_statusText = [], rs_json = Inr JNull\<rparr>"
    by (simp add: demoWorld_def)
  have page: "fetch gatewayWorld (paidRequest DEFAULT_API_URL demoHeader) =
      Inr \<lparr>rs_status = 502, rs_statusText = ''Bad Gateway'',
           rs_json = Inl (Error ''Unexpected token < in JSON'')\<rparr>"
    by (simp add: gatewayWorld_def)
  have down: "fetch offlineWorld (paidRequest DEFAULT_API_URL demoHeader) =
      Inl (Error ''fetch failed'')"
    by (simp add: offlineWorld_def)
  have message: "nullPropertyMessage (demoWorld True 402 JNull) = ''null is not an object''"
    by (simp add: demoWorld_def)
  have reason: "orElse (getProp insufficientFunds ''error'')
        (orElse (getProp insufficientFunds ''invalidReason'') (JStr (''HTTP '' @ decimal 402))) =
      JStr ''insufficient_funds''"
    by (simp add: insufficientFunds_def orElse_def)
  have distinct: "insufficientFunds \<noteq> JNull"
    by (simp add: insufficientFunds_def)
  show ?thesis
    using ok refused null page down message reason distinct
      paid_outcome_by_status [of "demoWorld True 200 sunny" DEFAULT_API_URL demoHeader
        "\<lparr>rs_status = 200, rs_statusText = [], rs_json = Inr sunny\<rparr>" sunny]
      paid_outcome_by_status [of "demoWorld True 402 insufficientFunds" DEFAULT_API_URL
        demoHeader "\<lparr>rs_status = 402, rs_statusText = [], rs_json = Inr insufficientFunds\<rparr>"
        insufficientFunds]
      paid_outcome_by_status [of "demoWorld True 402 JNull" DEFAULT_API_URL demoHeader
        "\<lparr>rs_status = 402, rs_statusText = [], rs_json = Inr JNull\<rparr>"]
      paid_outcome_by_status [of gatewayWorld DEFAULT_API_URL demoHeader
        "\<lparr>rs_status = 502, rs_statusText = ''Bad Gateway'',
          rs_json = Inl (Error ''Unexpected token < in JSON'')\<rparr>" _
        "Error ''Unexpected token < in JSON''"]
      paid_outcome_by_status [of offlineWorld DEFAULT_API_URL demoHeader _ _
        "Error ''fetch failed''"]
    by (simp add: thrownMessage_def)
qed

section \<open>Properties of the signer and the builder\<close>

text \<open>
  C4. The signature is verified against the address of the account that signed, over the
  same domain, types and message; when this verification answers false, the pipeline
  returns the failure "Signature verification failed" and has sent no request.
\<close>

theorem failed_verification_halts:
  assumes "privateKeyToAccount w privateKey = Inr addr"
    and "acct = \<lparr>address = addr, privateKeyOf = privateKey\<rparr>"
    and "message = buildAuthorization w acct paymentAmount"
    and "signTypedData w acct EIP3009_DOMAIN TRANSFER_WITH_AUTHORIZATION_TYPEHASH
           ''TransferWithAuthorization'' message = Inr signature"
    and "verifyTypedData w (address acct) EIP3009_DOMAIN TRANSFER_WITH_AUTHORIZATION_TYPEHASH
           ''TransferWithAuthorization'' message signature = Inr False"
  shows "processPaymentAndFetchWeather w privateKey apiUrl =
           (\<lparr>success = False, data = None,
             error = Some (JStr ''Signature verification failed''), status = None\<rparr>, [])"
  using assms by (simp add: processPaymentAndFetchWeather_def Let_def)

theorem failed_verification_witness:
  "processPaymentAndFetchWeather (demoWorld False 200 sunny) ''0x01'' DEFAULT_API_URL =
     (\<lparr>success = False, data = None,
       error = Some (JStr ''Signature verification failed''), status = None\<rparr>, [])"
  by (rule failed_verification_halts
        [where addr = "''0x7E5F4552091A69125d5DfCb7b8C2659029395Bdf''"
           and signature = "''0x5a1f''", OF _ refl refl])
     (simp_all add: demoWorld_def)

text \<open>
  C5, as the claim states it, fails: when the clock passes to the next second between
  the two readings, the lower bound is 1689999400 and the upper bound 1690003601, and
  no \<open>t\<close> is 600 above the one and 3600 below the other.
\<close>

theorem validity_window_counterexample:
  "a_validAfter (buildAuthorization tickingWorld demoAccount paymentAmount) = 1689999400 \<and>
   a_validBefore (buildAuthorization tickingWorld demoAccount paymentAmount) = 1690003601 \<and>
   a_validAfter (buildAuthorization tickingWorld demoAccount paymentAmount) + 600 \<noteq>
     a_validBefore (buildAuthorization tickingWorld demoAccount paymentAmount) - 3600"
  by (simp add: buildAuthorization_def tickingWorld_def Let_def)

text \<open>
  C5, amended. The clock is read once for each bound: the lower bound is 600 below the
  second of the first reading and the upper bound 3600 above the second of the second
  reading. When both readings fall in the second \<open>t\<close>, the window runs from \<open>t - 600\<close> to
  \<open>t + 3600\<close>; and every second \<open>t\<close> from that of the first reading to that of the second
  lies in the window, above the lower bound and at most the upper.
\<close>

theorem validity_window:
  "a_validAfter (buildAuthorization w acct amount) = dateNow w 0 div 1000 - 600 \<and>
   a_validBefore (buildAuthorization w acct amount) = dateNow w 1 div 1000 + 3600 \<and>
   (dateNow w 0 div 1000 = t \<and> dateNow w 1 div 1000 = t \<longrightarrow>
      a_validAfter (buildAuthorization w acct amount) = t - 600 \<and>
      a_validBefore (buildAuthorization w acct amount) = t + 3600) \<and>
   (dateNow w 0 div 1000 \<le> t \<and> t \<le> dateNow w 1 div 1000 \<longrightarrow>
      a_validAfter (buildAuthorization w acct amount) < t \<and>
      t \<le> a_validBefore (buildAuthorization w acct amount))"
  by (simp add: buildAuthorization_def Let_def)

theorem validity_window_witness:
  "a_validAfter (buildAuthorization (demoWorld True 200 sunny) demoAccount paymentAmount) =
     1689999400 \<and>
   a_validBefore (buildAuthorization (demoWorld True 200 sunny) demoAccount paymentAmount) =
     1690003600 \<and>
   a_validAfter (buildAuthorization tickingWorld demoAccount paymentAmount) < 1690000001 \<and>
   1690000001 \<le> a_validBefore (buildAuthorization tickingWorld demoAccount paymentAmount)"
proof -
  have a: "dateNow (demoWorld True 200 sunny) 0 div 1000 = 1690000000"
    by (simp add: demoWorld_def)
  have b: "dateNow (demoWorld True 200 sunny) 1 div 1000 = 1690000000"
    by (simp add: demoWorld_def)
  have c: "dateNow tickingWorld 0 div 1000 \<le> 1690000001"
    by (simp add: tickingWorld_def)
  have d: "1690000001 \<le> dateNow tickingWorld 1 div 1000"
    by (simp add: tickingWorld_def)
  show ?thesis
    using a b c d
      validity_window [of "demoWorld True 200 sunny" demoAccount paymentAmount 1690000000]
      validity_window [of tickingWorld demoAccount paymentAmount 1690000001]
    by simp
qed

section \<open>Properties of the encoding\<close>

subsection \<open>Base64\<close>

lemma base64Val_base64Char: "i < 64 \<Longrightarrow> base64Val (base64Char i) = Some i"
  by (auto simp add: base64Val_def base64Char_def Let_def)

lemma base64Char_not_pad: "i < 64 \<Longrightarrow> \<not> isPad (base64Char i)"
  by (auto simp add: isPad_def base64Char_def)

lemma isPad_equals: "isPad (CHR ''='')"
  by (simp add: isPad_def)

lemma unbase64_three:
  assumes "p < 64" and "q < 64" and "r < 64" and "s < 64"
  shows "unbase64 (base64Char p # base64Char q # base64Char r # base64Char s # rest) =
           map_option
             (\<lambda>bytes. char_of (p * 4 + q div 16) # char_of ((q mod 16) * 16 + r div 4)
                # char_of ((r mod 4) * 64 + s) # bytes)
             (unbase64 rest)"
  using assms by (simp add: base64Val_base64Char base64Char_not_pad)

lemma unbase64_two:
  assumes "p < 64" and "q < 64" and "r < 64"
  shows "unbase64 [base64Char p, base64Char q, base64Char r, CHR ''=''] =
           Some [char_of (p * 4 + q div 16), char_of ((q mod 16) * 16 + r div 4)]"
  using assms by (simp add: base64Val_base64Char base64Char_not_pad isPad_equals)

lemma unbase64_one:
  assumes "p < 64" and "q < 64"
  shows "unbase64 [base64Char p, base64Char q, CHR ''='', CHR ''=''] =
           Some [char_of (p * 4 + q div 16)]"
  using assms by (simp add: base64Val_base64Char isPad_equals)

lemma regroup_first:
  fixes x y :: nat
  assumes "y < 256"
  shows "x div 4 * 4 + ((x mod 4) * 16 + y div 16) div 16 = x"
  using assms by (simp add: div_mult2_eq [symmetric])

lemma regroup_second:
  fixes x y z :: nat
  assumes "y < 256" and "z < 256"
  shows "(((x mod 4) * 16 + y div 16) mod 16) * 16 + ((y mod 16) * 4 + z div 64) div 4 = y"
proof -
  have "y div 16 < 16" using assms(1) by simp
  moreover have "z div 64 div 4 = 0" using assms(2) by (simp add: div_mult2_eq [symmetric])
  ultimately show ?thesis by simp
qed

lemma regroup_third:
  fixes y z :: nat
  assumes "z < 256"
  shows "(((y mod 16) * 4 + z div 64) mod 4) * 64 + z mod 64 = z"
proof -
  have "z div 64 < 4" using assms by simp
  then show ?thesis by simp
qed

lemma sextet_second:
  fixes x y :: nat
  assumes "y < 256"
  shows "(x mod 4) * 16 + y div 16 < 64"
proof -
  have "x mod 4 < 4" and "y div 16 < 16" using assms by simp_all
  then show ?thesis by linarith
qed

lemma sextet_third:
  fixes y z :: nat
  assumes "z < 256"
  shows "(y mod 16) * 4 + z div 64 < 64"
proof -
  have "y mod 16 < 16" and "z div 64 < 4" using assms by simp_all
  then show ?thesis by linarith
qed

lemma unbase64_base64: "unbase64 (base64 bytes) = Some bytes"
proof (induction bytes rule: base64.induct)
  case 1
  then show ?case by simp
next
  case (2 a)
  define x :: nat where "x = of_char a"
  have x: "x < 256" by (simp add: x_def)
  have z: "(0::nat) < 256" by simp
  have p: "x div 4 < 64" using x by simp
  have q: "(x mod 4) * 16 < 64" using sextet_second [OF z, of x] by simp
  have enc: "base64 [a] = [base64Char (x div 4), base64Char ((x mod 4) * 16), CHR ''='', CHR ''='']"
    by (simp add: x_def Let_def)
  have "unbase64 (base64 [a]) = Some [char_of (x div 4 * 4 + ((x mod 4) * 16) div 16)]"
    unfolding enc by (rule unbase64_one [OF p q])
  also have "\<dots> = Some [a]"
    using regroup_first [OF z, of x] by (simp add: x_def)
  finally show ?case .
next
  case (3 a b)
  define x :: nat where "x = of_char a"
  define y :: nat where "y = of_char b"
  have x: "x < 256" and y: "y < 256" by (simp_all add: x_def y_def)
  have z: "(0::nat) < 256" by simp
  have p: "x div 4 < 64" using x by simp
  have q: "(x mod 4) * 16 + y div 16 < 64" using sextet_second [OF y, of x] by simp
  have r: "(y mod 16) * 4 < 64" using sextet_third [OF z, of y] by simp
  have enc: "base64 [a, b] =
      [base64Char (x div 4), base64Char ((x mod 4) * 16 + y div 16),
       base64Char ((y mod 16) * 4), CHR ''='']"
    by (simp add: x_def y_def Let_def)
  have "unbase64 (base64 [a, b]) =
          Some [char_of (x div 4 * 4 + ((x mod 4) * 16 + y div 16) div 16),
                char_of ((((x mod 4) * 16 + y div 16) mod 16) * 16 + ((y mod 16) * 4) div 4)]"
    unfolding enc by (rule unbase64_two [OF p q r])
  also have "\<dots> = Some [a, b]"
    using regroup_first [OF y, of x] regroup_second [OF y z, of x] by (simp add: x_def y_def)
  finally show ?case .
next
  case (4 a b c rest)
  define x :: nat where "x = of_char a"
  define y :: nat where "y = of_char b"
  define z :: nat where "z = of_char c"
  have x: "x < 256" and y: "y < 256" and z: "z < 256" by (simp_all add: x_def y_def z_def)
  have p: "x div 4 < 64" using x by simp
  have q: "(x mod 4) * 16 + y div 16 < 64" using sextet_second [OF y, of x] by simp
  have r: "(y mod 16) * 4 + z div 64 < 64" using sextet_third [OF z, of y] by simp
  have s: "z mod 64 < 64" by simp
  have ih: "unbase64 (base64 rest) = Some rest" using "4.IH" by simp
  have enc: "base64 (a # b # c # rest) =
      base64Char (x div 4) # base64Char ((x mod 4) * 16 + y div 16)
        # base64Char ((y mod 16) * 4 + z div 64) # base64Char (z mod 64) # base64 rest"
    by (simp add: x_def y_def z_def Let_def)
  have "unbase64 (base64 (a # b # c # rest)) =
          Some (char_of (x div 4 * 4 + ((x mod 4) * 16 + y div 16) div 16)
             # char_of ((((x mod 4) * 16 + y div 16) mod 16) * 16
                        + ((y mod 16) * 4 + z div 64) div 4)
             # char_of ((((y mod 16) * 4 + z div 64) mod 4) * 64 + z mod 64) # rest)"
    unfolding enc unbase64_three [OF p q r s] ih by simp
  also have "\<dots> = Some (a # b # c # rest)"
    by (simp only: regroup_first [OF y] regroup_second [OF y z] regroup_third [OF z])
       (simp add: x_def y_def z_def)
  finally show ?case .
qed

subsection \<open>UTF-8 and decimal numerals\<close>

lemma utf8Decode_utf8Char: "utf8Decode (utf8Char c @ rest) = map_option (\<lambda>s. c # s) (utf8Decode rest)"
proof (cases "(of_char c :: nat) < 128")
  case True
  then show ?thesis by (simp add: utf8Char_def)
next
  case False
  define n :: nat where "n = of_char c"
  have n: "128 \<le> n" "n < 256" using False by (simp_all add: n_def)
  have "n div 64 < 4" using n by simp
  moreover have "2 \<le> n div 64" using n by (simp add: less_eq_div_iff_mult_less_eq)
  ultimately have lead: "n div 64 = 2 \<or> n div 64 = 3" by linarith
  have l: "(192 + n div 64) mod 256 = 192 + n div 64" using lead by auto
  have t: "(128 + n mod 64) mod 256 = 128 + n mod 64" by simp
  have whole: "char_of (n div 64 * 64 + n mod 64) = c" by (simp add: n_def)
  have "utf8Char c = [char_of (192 + n div 64), char_of (128 + n mod 64)]"
    using False by (simp add: utf8Char_def n_def Let_def)
  then show ?thesis
    using lead whole by (auto simp add: l t Let_def)
qed

lemma utf8Decode_utf8: "utf8Decode (utf8 s) = Some s"
  by (induction s) (simp_all add: utf8_def utf8Decode_utf8Char del: utf8Decode.simps(2))

lemma digitVal_digitChar: "d < 10 \<Longrightarrow> digitVal (digitChar d) = Some d"
  by (simp add: digitVal_def digitChar_def)

lemma parseNat_append:
  "parseNat acc (xs @ ys) = (case parseNat acc xs of None \<Rightarrow> None | Some a \<Rightarrow> parseNat a ys)"
  by (induction xs arbitrary: acc) (simp_all split: option.splits)

lemma parseNat_decimalNat: "parseNat 0 (decimalNat n) = Some n"
proof (induction n rule: decimalNat.induct)
  case (1 n)
  show ?case
  proof (cases "n < 10")
    case True
    then show ?thesis by (simp add: decimalNat.simps [of n] digitVal_digitChar)
  next
    case False
    then have "parseNat 0 (decimalNat (n div 10)) = Some (n div 10)" using 1 by simp
    then show ?thesis
      using False by (simp add: decimalNat.simps [of n] parseNat_append digitVal_digitChar)
  qed
qed

lemma decimalNat_first: "\<exists>d ds. decimalNat n = digitChar d # ds \<and> d < 10"
proof (induction n rule: decimalNat.induct)
  case (1 n)
  show ?case
  proof (cases "n < 10")
    case True
    then have "decimalNat n = digitChar n # []" by (simp add: decimalNat.simps [of n])
    then show ?thesis using True by blast
  next
    case False
    then obtain d ds where e: "decimalNat (n div 10) = digitChar d # ds" and d: "d < 10"
      using 1 by blast
    have "decimalNat n = digitChar d # (ds @ [digitChar (n mod 10)])"
      using False e by (simp add: decimalNat.simps [of n])
    then show ?thesis using d by blast
  qed
qed

lemma parseDecimal_decimal: "parseDecimal (decimal i) = Some i"
proof (cases "i < 0")
  case True
  obtain d ds where e: "decimalNat (nat (- i)) = digitChar d # ds" and "d < 10"
    using decimalNat_first by blast
  then have "decimalNat (nat (- i)) \<noteq> []" by simp
  then show ?thesis
    using True parseNat_decimalNat [of "nat (- i)"]
    by (simp add: parseDecimal_def decimal_def)
next
  case False
  obtain d ds where e: "decimalNat (nat i) = digitChar d # ds" and d: "d < 10"
    using decimalNat_first by blast
  have "(of_char (digitChar d) :: nat) \<noteq> 45" using d by (simp add: digitChar_def)
  then show ?thesis
    using False e parseNat_decimalNat [of "nat i"]
    by (simp add: parseDecimal_def decimal_def)
qed

subsection \<open>The JSON text of the payload\<close>

lemma hexVal_hexDigit: "d < 16 \<Longrightarrow> hexVal (hexDigit d) = Some d"
  by (auto simp add: hexVal_def hexDigit_def)

lemma hexPair_control:
  assumes "n < 32"
  shows "hexPair (CHR ''0'') (CHR ''0'') (hexDigit (n div 16)) (hexDigit (n mod 16)) =
           Some (char_of n)"
proof -
  have z: "hexVal (CHR ''0'') = Some 0" by (simp add: hexVal_def)
  have p: "hexVal (hexDigit (n div 16)) = Some (n div 16)"
    using assms by (simp add: hexVal_hexDigit)
  have q: "hexVal (hexDigit (n mod 16)) = Some (n mod 16)"
    by (simp add: hexVal_hexDigit)
  show ?thesis by (simp add: hexPair_def z p q)
qed

lemma char_of_quote: "char_of (34::nat) = CHR 0x22"
  by code_simp

lemma char_of_backslash: "char_of (92::nat) = CHR 0x5C"
  by code_simp

lemma readChars_escapeChar:
  "readChars (escapeChar c @ others) = consResult c (readChars others)"
proof -
  define n :: nat where "n = of_char c"
  have c: "c = char_of n" by (simp add: n_def)
  consider (short) "n = 34 \<or> n = 92 \<or> n = 8 \<or> n = 9 \<or> n = 10 \<or> n = 12 \<or> n = 13"
    | (control) "n < 32" "n \<noteq> 8" "n \<noteq> 9" "n \<noteq> 10" "n \<noteq> 12" "n \<noteq> 13"
    | (plain) "32 \<le> n" "n \<noteq> 34" "n \<noteq> 92"
    by linarith
  then show ?thesis
  proof cases
    case short
    then show ?thesis
      by (auto simp add: escapeChar_def unescape_def c char_of_quote char_of_backslash)
  next
    case control
    have e: "escapeChar c =
        [CHR 0x5C, CHR ''u'', CHR ''0'', CHR ''0'', hexDigit (n div 16), hexDigit (n mod 16)]"
      using control by (simp add: escapeChar_def n_def [symmetric] Let_def)
    show ?thesis
      unfolding e using hexPair_control [OF control(1)] by (simp add: c)
  next
    case plain
    then have e: "escapeChar c = [c]"
      by (simp add: escapeChar_def n_def [symmetric] Let_def)
    show ?thesis
      unfolding e using plain by (simp add: n_def)
  qed
qed

lemma readChars_end: "readChars (CHR 0x22 # rest) = Some ([], rest)"
  by simp

lemma readChars_escaped:
  "readChars (concat (map escapeChar s) @ CHR 0x22 # rest) = Some (s, rest)"
  by (induction s)
    (simp_all add: readChars_escapeChar readChars_end consResult_def del: readChars.simps(2))

lemma readString_quote: "readString (quote s @ rest) = Some (s, rest)"
  by (simp add: readString_def quote_def readChars_escaped del: readChars.simps(2))

lemma expect_append: "expect p (p @ r) = Some r"
  by (induction p) simp_all

lemma JSON_stringify_payload:
  \<open>JSON_stringify (paymentPayload signature message) =
     ''{"x402Version":1,"scheme":"exact","network":"base-sepolia","payload":{"signature":''
     @ quote signature @ '',"authorization":{"from":'' @ quote (a_from message)
     @ '',"to":'' @ quote (a_to message)
     @ '',"value":'' @ quote (decimal (a_value message))
     @ '',"validAfter":'' @ quote (decimal (a_validAfter message))
     @ '',"validBefore":'' @ quote (decimal (a_validBefore message))
     @ '',"nonce":'' @ quote (a_nonce message) @ ''}}}''\<close>
proof -
  have keys:
    \<open>quote ''x402Version'' = ''"x402Version"''\<close>
    \<open>quote ''scheme'' = ''"scheme"''\<close>
    \<open>quote ''exact'' = ''"exact"''\<close>
    \<open>quote ''network'' = ''"network"''\<close>
    \<open>quote ''base-sepolia'' = ''"base-sepolia"''\<close>
    \<open>quote ''payload'' = ''"payload"''\<close>
    \<open>quote ''signature'' = ''"signature"''\<close>
    \<open>quote ''authorization'' = ''"authorization"''\<close>
    \<open>quote ''from'' = ''"from"''\<close>
    \<open>quote ''to'' = ''"to"''\<close>
    \<open>quote ''value'' = ''"value"''\<close>
    \<open>quote ''validAfter'' = ''"validAfter"''\<close>
    \<open>quote ''validBefore'' = ''"validBefore"''\<close>
    \<open>quote ''nonce'' = ''"nonce"''\<close>
    by code_simp+
  show ?thesis
    by (simp add: paymentPayload_def keys)
qed

lemma parsePayload_stringify:
  "parsePayload (JSON_stringify (paymentPayload signature message)) =
     Some \<lparr>sa_signature = signature, sa_authorization = message\<rparr>"
  unfolding JSON_stringify_payload parsePayload_def
  by (simp add: readString_quote parseDecimal_decimal)


lemma escapeChar_digit: "d < 10 \<Longrightarrow> escapeChar (digitChar d) = [digitChar d]"
  by (simp add: escapeChar_def digitChar_def Let_def)

lemma decimalNat_plain: "concat (map escapeChar (decimalNat n)) = decimalNat n"
proof (induction n rule: decimalNat.induct)
  case (1 n)
  show ?case
  proof (cases "n < 10")
    case True
    then show ?thesis by (simp add: decimalNat.simps [of n] escapeChar_digit)
  next
    case False
    then have "concat (map escapeChar (decimalNat (n div 10))) = decimalNat (n div 10)"
      using 1 by simp
    then show ?thesis
      using False by (simp add: decimalNat.simps [of n] escapeChar_digit)
  qed
qed

lemma quote_decimal: "quote (decimal i) = CHR 0x22 # decimal i @ [CHR 0x22]"
  by (simp add: quote_def decimal_def decimalNat_plain escapeChar_def)

text \<open>
  C9. Decoding inverts encoding: for every signed authorization, the header value that
  the encoding (JSON text, UTF-8, base64) writes is read back to the same signed
  authorization.
\<close>

theorem decode_encode: "decode (encode x) = Some x"
  by (simp add: decode_def encode_def paymentHeaderOf_def unbase64_base64 utf8Decode_utf8
      parsePayload_stringify)

text \<open>
  C6. When the signature verifies, the pipeline sends one request whose \<open>X-PAYMENT\<close>
  header is the base64 text of the UTF-8 bytes of the JSON text of the payment payload;
  in the payload the value and the two bounds of the window are strings, written
  between quotation marks in the JSON text, and each is the decimal numeral of its
  number.
\<close>

theorem payment_header_value:
  assumes "privateKeyToAccount w privateKey = Inr addr"
    and "acct = \<lparr>address = addr, privateKeyOf = privateKey\<rparr>"
    and "message = buildAuthorization w acct paymentAmount"
    and "signTypedData w acct EIP3009_DOMAIN TRANSFER_WITH_AUTHORIZATION_TYPEHASH
           ''TransferWithAuthorization'' message = Inr signature"
    and "verifyTypedData w (address acct) EIP3009_DOMAIN TRANSFER_WITH_AUTHORIZATION_TYPEHASH
           ''TransferWithAuthorization'' message signature = Inr True"
    and "payload =
           JObj [(''x402Version'', JNum ''1''), (''scheme'', JStr ''exact''),
                 (''network'', JStr ''base-sepolia''),
                 (''payload'', JObj [(''signature'', JStr signature),
                    (''authorization'', JObj [(''from'', JStr addr),
                       (''to'', JStr PAYEE_ADDRESS),
                       (''value'', JStr (decimal 1000)),
                       (''validAfter'', JStr (decimal (a_validAfter message))),
                       (''validBefore'', JStr (decimal (a_validBefore message))),
                       (''nonce'', JStr (createNonce w))])])]"
  shows \<open>map r_headers (snd (processPaymentAndFetchWeather w privateKey apiUrl)) =
           [[(''Content-Type'', ''application/json''),
             (''X-PAYMENT'', base64 (utf8 (JSON_stringify payload)))]] \<and>
         JSON_stringify payload =
           ''{"x402Version":1,"scheme":"exact","network":"base-sepolia","payload":{"signature":''
           @ quote signature @ '',"authorization":{"from":'' @ quote addr
           @ '',"to":'' @ quote PAYEE_ADDRESS
           @ '',"value":"'' @ decimal 1000
           @ ''","validAfter":"'' @ decimal (a_validAfter message)
           @ ''","validBefore":"'' @ decimal (a_validBefore message)
           @ ''","nonce":'' @ quote (createNonce w) @ ''}}}'' \<and>
         parseDecimal (decimal 1000) = Some 1000 \<and>
         parseDecimal (decimal (a_validAfter message)) = Some (a_validAfter message) \<and>
         parseDecimal (decimal (a_validBefore message)) = Some (a_validBefore message)\<close>
proof -
  have p: "payload = paymentPayload signature message"
    using assms(2,3,6) by (simp add: paymentPayload_def buildAuthorization_def paymentAmount_def Let_def)
  have h: "snd (processPaymentAndFetchWeather w privateKey apiUrl) =
      [paidRequest apiUrl (base64 (utf8 (JSON_stringify payload)))]"
    using assms(1-5)
    by (simp add: processPaymentAndFetchWeather_def Let_def sendPayment_requests
        paymentHeaderOf_def p)
  have m: "a_from message = addr" "a_to message = PAYEE_ADDRESS" "a_value message = 1000"
    "a_nonce message = createNonce w"
    using assms(2,3) by (simp_all add: buildAuthorization_def paymentAmount_def Let_def)
  have t: \<open>JSON_stringify payload =
           ''{"x402Version":1,"scheme":"exact","network":"base-sepolia","payload":{"signature":''
           @ quote signature @ '',"authorization":{"from":'' @ quote addr
           @ '',"to":'' @ quote PAYEE_ADDRESS
           @ '',"value":"'' @ decimal 1000
           @ ''","validAfter":"'' @ decimal (a_validAfter message)
           @ ''","validBefore":"'' @ decimal (a_validBefore message)
           @ ''","nonce":'' @ quote (createNonce w) @ ''}}}''\<close>
    unfolding p JSON_stringify_payload m by (simp add: quote_decimal)
  show ?thesis
    using h t by (simp add: paidRequest_def parseDecimal_decimal)
qed

subsection \<open>The header of an example run\<close>

lemma digitChar_values:
  "digitChar 0 = CHR ''0''" "digitChar 1 = CHR ''1''" "digitChar 2 = CHR ''2''"
  "digitChar 3 = CHR ''3''" "digitChar 4 = CHR ''4''" "digitChar 5 = CHR ''5''"
  "digitChar 6 = CHR ''6''" "digitChar 7 = CHR ''7''" "digitChar 8 = CHR ''8''"
  "digitChar 9 = CHR ''9''" "digitChar (Suc 0) = CHR ''1''"
  by (code_simp, code_simp, code_simp, code_simp, code_simp, code_simp, code_simp, code_simp,
      code_simp, code_simp, code_simp)

lemma demo_nonce:
  "createNonce (demoWorld True 200 sunny) =
     ''0x01080f161d242b323940474e555c636a71787f868d949ba2a9b0b7bec5ccd3da''"
  by code_simp

lemma demo_clock: "dateNow (demoWorld True 200 sunny) k = 1690000000123"
  by (simp add: demoWorld_def)

lemma demo_message:
  "buildAuthorization (demoWorld True 200 sunny) demoAccount paymentAmount =
     \<lparr>a_from = ''0x7E5F4552091A69125d5DfCb7b8C2659029395Bdf'',
      a_to = ''0x903918bB1903714E0518Ea2122aCeBfa27f11b6F'', a_value = 1000,
      a_validAfter = 1689999400, a_validBefore = 1690003600,
      a_nonce = ''0x01080f161d242b323940474e555c636a71787f868d949ba2a9b0b7bec5ccd3da''\<rparr>"
  by (simp add: buildAuthorization_def Let_def demo_nonce demo_clock demoAccount_def
      paymentAmount_def PAYEE_ADDRESS_def)

lemma demo_json:
  "JSON_stringify (paymentPayload ''0x5a1f''
       \<lparr>a_from = ''0x7E5F4552091A69125d5DfCb7b8C2659029395Bdf'',
        a_to = ''0x903918bB1903714E0518Ea2122aCeBfa27f11b6F'', a_value = 1000,
        a_validAfter = 1689999400, a_validBefore = 1690003600,
        a_nonce = ''0x01080f161d242b323940474e555c636a71787f868d949ba2a9b0b7bec5ccd3da''\<rparr>) =
     demoJson"
proof -
  have signature: \<open>quote ''0x5a1f'' = ''"0x5a1f"''\<close>
    by code_simp
  have payer: \<open>quote ''0x7E5F4552091A69125d5DfCb7b8C2659029395Bdf'' =
       ''"0x7E5F4552091A69125d5DfCb7b8C2659029395Bdf"''\<close>
    by code_simp
  have payee: \<open>quote ''0x903918bB1903714E0518Ea2122aCeBfa27f11b6F'' =
       ''"0x903918bB1903714E0518Ea2122aCeBfa27f11b6F"''\<close>
    by code_simp
  have nonce: \<open>quote ''0x01080f161d242b323940474e555c636a71787f868d949ba2a9b0b7bec5ccd3da'' =
       ''"0x01080f161d242b323940474e555c636a71787f868d949ba2a9b0b7bec5ccd3da"''\<close>
    by code_simp
  have "decimal 1000 = ''1000''"
    by (simp add: decimal_def decimalNat.simps digitChar_values)
  then have amount: \<open>quote (decimal 1000) = ''"1000"''\<close>
    unfolding quote_decimal by simp
  have "decimal 1689999400 = ''1689999400''"
    by (simp add: decimal_def decimalNat.simps digitChar_values)
  then have after: \<open>quote (decimal 1689999400) = ''"1689999400"''\<close>
    unfolding quote_decimal by simp
  have "decimal 1690003600 = ''1690003600''"
    by (simp add: decimal_def decimalNat.simps digitChar_values)
  then have before: \<open>quote (decimal 1690003600) = ''"1690003600"''\<close>
    unfolding quote_decimal by simp
  show ?thesis
    unfolding JSON_stringify_payload
    by (simp add: signature payer payee nonce amount after before demoJson_def)
qed

lemma demo_utf8: "utf8 demoJson = demoJson"
  by code_simp

lemma demo_base64: "base64 demoJson = demoHeader"
  by code_simp

lemma demo_encode: "encode demoSigned = demoHeader"
  by (simp add: encode_def demoSigned_def paymentHeaderOf_def demo_message demo_json demo_utf8
      demo_base64)

theorem decode_encode_witness:
  "encode demoSigned = demoHeader \<and> decode demoHeader = Some demoSigned"
  using demo_encode decode_encode [of demoSigned] by simp

theorem payment_header_witness:
  "map r_headers (snd (processPaymentAndFetchWeather (demoWorld True 200 sunny) ''0x01''
      DEFAULT_API_URL)) =
     [[(''Content-Type'', ''application/json''), (''X-PAYMENT'', demoHeader)]]"
proof -
  define message where
    "message = buildAuthorization (demoWorld True 200 sunny) demoAccount paymentAmount"
  have a: "demoAccount =
      \<lparr>address = ''0x7E5F4552091A69125d5DfCb7b8C2659029395Bdf'', privateKeyOf = ''0x01''\<rparr>"
    by (simp add: demoAccount_def)
  have k: "privateKeyToAccount (demoWorld True 200 sunny) ''0x01'' =
      Inr ''0x7E5F4552091A69125d5DfCb7b8C2659029395Bdf''"
    by (simp add: demoWorld_def)
  have s: "signTypedData (demoWorld True 200 sunny) demoAccount EIP3009_DOMAIN
      TRANSFER_WITH_AUTHORIZATION_TYPEHASH ''TransferWithAuthorization'' message = Inr ''0x5a1f''"
    by (simp add: demoWorld_def)
  have v: "verifyTypedData (demoWorld True 200 sunny) (address demoAccount) EIP3009_DOMAIN
      TRANSFER_WITH_AUTHORIZATION_TYPEHASH ''TransferWithAuthorization'' message ''0x5a1f'' =
      Inr True"
    by (simp add: demoWorld_def)
  have e: "base64 (utf8 (JSON_stringify (paymentPayload ''0x5a1f'' message))) = demoHeader"
    using demo_encode by (simp add: encode_def demoSigned_def paymentHeaderOf_def message_def)
  have m: "a_from message = ''0x7E5F4552091A69125d5DfCb7b8C2659029395Bdf''"
    "a_to message = PAYEE_ADDRESS" "a_value message = 1000"
    "a_nonce message = createNonce (demoWorld True 200 sunny)"
    by (simp_all add: message_def buildAuthorization_def paymentAmount_def demoAccount_def Let_def)
  have p: "paymentPayload ''0x5a1f'' message =
      JObj [(''x402Version'', JNum ''1''), (''scheme'', JStr ''exact''),
            (''network'', JStr ''base-sepolia''),
            (''payload'', JObj [(''signature'', JStr ''0x5a1f''),
               (''authorization'',
                JObj [(''from'', JStr ''0x7E5F4552091A69125d5DfCb7b8C2659029395Bdf''),
                  (''to'', JStr PAYEE_ADDRESS),
                  (''value'', JStr (decimal 1000)),
                  (''validAfter'', JStr (decimal (a_validAfter message))),
                  (''validBefore'', JStr (decimal (a_validBefore message))),
                  (''nonce'', JStr (createNonce (demoWorld True 200 sunny)))])])]"
    by (simp add: paymentPayload_def m)
  have h: "map r_headers (snd (processPaymentAndFetchWeather (demoWorld True 200 sunny) ''0x01''
      DEFAULT_API_URL)) =
     [[(''Content-Type'', ''application/json''),
       (''X-PAYMENT'', base64 (utf8 (JSON_stringify (paymentPayload ''0x5a1f'' message))))]]"
    using payment_header_value [OF k a message_def s v p, of DEFAULT_API_URL] by blast
  show ?thesis
    unfolding h e by (rule refl)
qed

end
